theory Spec2Isabelle
  imports Main "HOL-Library.Word"
begin

unbundle bit_operations_syntax

section \<open>The canonical cluster model of package api\<close>

text \<open>
  The Go structs of \<^verbatim>\<open>pkg/api/types.go\<close> become records. Only the fields that the
  functions embedded below read or write are kept; the other fields of the Go structs are
  never inspected by these functions. A Go pointer field that may be nil is an
  \<open>option\<close>; a Go string is a \<open>string\<close> (a list of bytes); a slice that the code
  tests against nil is an optional list.

  The entries of \<^verbatim>\<open>AgentPoolProfiles\<close> and the receivers of the methods are taken to
  be non-nil pointers.
\<close>

subsection \<open>Constants of const.go\<close>

definition Kubernetes :: string where
  "Kubernetes = ''Kubernetes''"

definition Windows :: string where
  "Windows = ''Windows''"

definition Linux :: string where
  "Linux = ''Linux''"

definition DefaultOrchestratorName :: string where
  "DefaultOrchestratorName = ''k8s''"

definition DefaultHostedProfileMasterName :: string where
  "DefaultHostedProfileMasterName = ''aks''"

definition VirtualMachineScaleSets :: string where
  "VirtualMachineScaleSets = ''VirtualMachineScaleSets''"

definition AvailabilitySet :: string where
  "AvailabilitySet = ''AvailabilitySet''"

subsection \<open>Structs\<close>

record KubernetesAddon =
  Addon_Name :: string
  Enabled :: "bool option"
  Data :: string

record KubernetesConfig =
  Addons :: "KubernetesAddon list"

record OrchestratorProfile =
  OrchestratorType :: string
  OrchestratorVersion :: string

record MasterProfile =
  Master_DNSPrefix :: string
  Master_VnetSubnetID :: string
  Master_AvailabilityProfile :: string

record HostedMasterProfile =
  HostedMaster_DNSPrefix :: string

record AgentPoolProfile =
  AgentPool_Name :: string
  AgentPool_OSType :: string
  AgentPool_AvailabilityProfile :: string
  AgentPool_VnetSubnetID :: string

record Properties =
  ClusterID :: string
  OrchestratorProfile :: "OrchestratorProfile option"
  MasterProfile :: "MasterProfile option"
  AgentPoolProfiles :: "AgentPoolProfile list option"
  HostedMasterProfile :: "HostedMasterProfile option"

text \<open>
  A Go \<^verbatim>\<open>range\<close>, \<^verbatim>\<open>len\<close> or index over a nil slice sees the empty slice.
\<close>

definition pools :: "Properties \<Rightarrow> AgentPoolProfile list" where
  "pools p = (case AgentPoolProfiles p of None \<Rightarrow> [] | Some xs \<Rightarrow> xs)"

text \<open>What a Go run-time panic of the embedded functions can be.\<close>

datatype panic = NilDereference | IndexOutOfRange

section \<open>Topology predicates\<close>

text \<open>
  \<^verbatim>\<open>func (p *Properties) HasWindows() bool\<close>: the loop returns at the first pool whose
  OSType is Windows.
\<close>

fun HasWindows_loop :: "AgentPoolProfile list \<Rightarrow> bool" where
  "HasWindows_loop [] = False"
| "HasWindows_loop (agentPoolProfile # rest) =
     (if AgentPool_OSType agentPoolProfile = Windows then True else HasWindows_loop rest)"

definition HasWindows :: "Properties \<Rightarrow> bool" where
  "HasWindows p = HasWindows_loop (pools p)"

section \<open>Addons\<close>

text \<open>\<^verbatim>\<open>func (a *KubernetesAddon) IsEnabled() bool\<close>\<close>

definition IsEnabled :: "KubernetesAddon \<Rightarrow> bool" where
  "IsEnabled a = (case Enabled a of None \<Rightarrow> False | Some b \<Rightarrow> b)"

text \<open>The zero value of the struct, which \<^verbatim>\<open>var kubeAddon KubernetesAddon\<close> declares.\<close>

definition zero_KubernetesAddon :: KubernetesAddon where
  "zero_KubernetesAddon = \<lparr>Addon_Name = [], Enabled = None, Data = []\<rparr>"

text \<open>
  \<^verbatim>\<open>func (k *KubernetesConfig) GetAddonByName(addonName string) KubernetesAddon\<close>:
  the first addon of that name, else the zero value.
\<close>

fun GetAddonByName_loop :: "KubernetesAddon list \<Rightarrow> string \<Rightarrow> KubernetesAddon" where
  "GetAddonByName_loop [] addonName = zero_KubernetesAddon"
| "GetAddonByName_loop (addon # rest) addonName =
     (if Addon_Name addon = addonName then addon else GetAddonByName_loop rest addonName)"

definition GetAddonByName :: "KubernetesConfig \<Rightarrow> string \<Rightarrow> KubernetesAddon" where
  "GetAddonByName k addonName = GetAddonByName_loop (Addons k) addonName"

definition IsAddonEnabled :: "KubernetesConfig \<Rightarrow> string \<Rightarrow> bool" where
  "IsAddonEnabled k addonName = IsEnabled (GetAddonByName k addonName)"

section \<open>Orchestrator code and cluster id\<close>

text \<open>\<^verbatim>\<open>func (o *OrchestratorProfile) IsKubernetes() bool\<close>\<close>

definition IsKubernetes :: "OrchestratorProfile \<Rightarrow> bool" where
  "IsKubernetes orch = (OrchestratorType orch = Kubernetes)"

text \<open>\<^verbatim>\<open>func (p *Properties) IsHostedMasterProfile() bool\<close>\<close>

definition IsHostedMasterProfile :: "Properties \<Rightarrow> bool" where
  "IsHostedMasterProfile p = (HostedMasterProfile p \<noteq> None)"

text \<open>
  \<^verbatim>\<open>func (p *Properties) K8sOrchestratorName() string\<close>. The method
  \<^verbatim>\<open>IsKubernetes\<close> reads a field of its receiver \<^verbatim>\<open>p.OrchestratorProfile\<close>, which
  panics when that pointer is nil.
\<close>

definition K8sOrchestratorName :: "Properties \<Rightarrow> panic + string" where
  "K8sOrchestratorName p =
     (case OrchestratorProfile p of
        None \<Rightarrow> Inl NilDereference
      | Some orch \<Rightarrow>
          if IsKubernetes orch then
            (if HostedMasterProfile p \<noteq> None then Inr DefaultHostedProfileMasterName
             else Inr DefaultOrchestratorName)
          else Inr [])"

subsection \<open>The 64-bit FNV-1a hash of \<^verbatim>\<open>hash/fnv\<close>\<close>

type_synonym byte = "8 word"

definition bytes_of :: "string \<Rightarrow> byte list" where
  "bytes_of s = map (\<lambda>c. word_of_nat (of_char c)) s"

definition fnv_offset64 :: "64 word" where
  "fnv_offset64 = 14695981039346656037"

definition fnv_prime64 :: "64 word" where
  "fnv_prime64 = 1099511628211"

definition New64a :: "64 word" where
  "New64a = fnv_offset64"

fun fnv64a_Write :: "64 word \<Rightarrow> byte list \<Rightarrow> 64 word" where
  "fnv64a_Write h [] = h"
| "fnv64a_Write h (c # cs) = fnv64a_Write ((h XOR ucast c) * fnv_prime64) cs"

definition Sum64 :: "64 word \<Rightarrow> 64 word" where
  "Sum64 h = h"

subsection \<open>Decimal formatting\<close>

text \<open>The digit table of the Go formatters, and the test for a decimal digit.\<close>

definition digit_char :: "nat \<Rightarrow> char" where
  "digit_char d = ''0123456789'' ! d"

definition is_digit :: "char \<Rightarrow> bool" where
  "is_digit c = (c \<in> set ''0123456789'')"

text \<open>The decimal digits of an unsigned number, most significant first.\<close>

fun uitoa :: "nat \<Rightarrow> string" where
  "uitoa n = (if n < 10 then [digit_char n] else uitoa (n div 10) @ [digit_char (n mod 10)])"

declare uitoa.simps [simp del]

text \<open>\<^verbatim>\<open>fmt.Sprintf("%08d", n)\<close> of an unsigned n: zeros on the left up to width 8.\<close>

definition Sprintf_08d :: "nat \<Rightarrow> string" where
  "Sprintf_08d n = replicate (8 - length (uitoa n)) (CHR ''0'') @ uitoa n"

subsection \<open>GetClusterID\<close>

text \<open>
  \<^verbatim>\<open>func (p *Properties) GetClusterID() string\<close>. The method writes the field
  \<^verbatim>\<open>ClusterID\<close> of its receiver, so the model returns the string together with the
  updated \<^verbatim>\<open>Properties\<close>.

  The generator of \<^verbatim>\<open>math/rand\<close> is not part of the repository: the parameter
  \<open>rnd\<close> stands for \<^verbatim>\<open>rand.New(rand.NewSource(int64(seed))).Uint32()\<close> as a function
  of the 64 bits of the seed.

  The slice \<^verbatim>\<open>[:uniqueNameSuffixSize]\<close> is \<open>take 8\<close>: the formatted string never has
  fewer than 8 bytes (lemma \<open>length_Sprintf_08d\<close> below), so the slice cannot panic.
\<close>

definition GetClusterID :: "(64 word \<Rightarrow> 32 word) \<Rightarrow> Properties \<Rightarrow> string \<times> Properties" where
  "GetClusterID rnd p =
     (if ClusterID p = [] then
        let h = New64a;
            h = (case MasterProfile p of
                   Some m \<Rightarrow> fnv64a_Write h (bytes_of (Master_DNSPrefix m))
                 | None \<Rightarrow>
                     (case HostedMasterProfile p of
                        Some hm \<Rightarrow> fnv64a_Write h (bytes_of (HostedMaster_DNSPrefix hm))
                      | None \<Rightarrow>
                          (case pools p of
                             a # _ \<Rightarrow> fnv64a_Write h (bytes_of (AgentPool_Name a))
                           | [] \<Rightarrow> h)));
            r = rnd (Sum64 h);
            p' = p\<lparr>ClusterID := take 8 (Sprintf_08d (unat r))\<rparr>
        in (ClusterID p', p')
      else (ClusterID p, p))"

subsection \<open>Names derived from the orchestrator code\<close>

text \<open>
  Go evaluates the operands of \<^verbatim>\<open>+\<close> from left to right: the orchestrator code
  first (which may panic), then the cluster id (which may write the field).
\<close>

definition name_with_id ::
  "(64 word \<Rightarrow> 32 word) \<Rightarrow> Properties \<Rightarrow> string \<Rightarrow> string \<Rightarrow> panic + string \<times> Properties" where
  "name_with_id rnd p infix_str suffix =
     (case K8sOrchestratorName p of
        Inl e \<Rightarrow> Inl e
      | Inr code \<Rightarrow>
          (case GetClusterID rnd p of
             (cid, p') \<Rightarrow> Inr (code @ infix_str @ cid @ suffix, p')))"

text \<open>\<^verbatim>\<open>func (p *Properties) GetMasterVMPrefix() string\<close>\<close>

definition GetMasterVMPrefix ::
  "(64 word \<Rightarrow> 32 word) \<Rightarrow> Properties \<Rightarrow> panic + string \<times> Properties" where
  "GetMasterVMPrefix rnd p = name_with_id rnd p ''-master-'' ''-''"

text \<open>\<^verbatim>\<open>func (p *Properties) GetResourcePrefix() string\<close>\<close>

definition GetResourcePrefix ::
  "(64 word \<Rightarrow> 32 word) \<Rightarrow> Properties \<Rightarrow> panic + string \<times> Properties" where
  "GetResourcePrefix rnd p =
     (if IsHostedMasterProfile p then name_with_id rnd p ''-agentpool-'' ''-''
      else name_with_id rnd p ''-master-'' ''-'')"

text \<open>\<^verbatim>\<open>func (p *Properties) GetRouteTableName() string\<close>\<close>

definition GetRouteTableName ::
  "(64 word \<Rightarrow> 32 word) \<Rightarrow> Properties \<Rightarrow> panic + string \<times> Properties" where
  "GetRouteTableName rnd p =
     (case GetResourcePrefix rnd p of
        Inl e \<Rightarrow> Inl e
      | Inr (prefix, p') \<Rightarrow> Inr (prefix @ ''routetable'', p'))"

text \<open>\<^verbatim>\<open>func (p *Properties) GetNSGName() string\<close>\<close>

definition GetNSGName ::
  "(64 word \<Rightarrow> 32 word) \<Rightarrow> Properties \<Rightarrow> panic + string \<times> Properties" where
  "GetNSGName rnd p =
     (case GetResourcePrefix rnd p of
        Inl e \<Rightarrow> Inl e
      | Inr (prefix, p') \<Rightarrow> Inr (prefix @ ''nsg'', p'))"

section \<open>Custom virtual networks\<close>

definition DefaultSubnetNameResourceSegmentIndex :: nat where
  "DefaultSubnetNameResourceSegmentIndex = 10"

definition DefaultVnetResourceGroupSegmentIndex :: nat where
  "DefaultVnetResourceGroupSegmentIndex = 4"

definition DefaultVnetNameResourceSegmentIndex :: nat where
  "DefaultVnetNameResourceSegmentIndex = 8"

text \<open>
  \<^verbatim>\<open>strings.Split(s, "/")\<close>: the pieces of s between the slashes, empty pieces
  included; one piece more than there are slashes.
\<close>

fun Split_from :: "string \<Rightarrow> string \<Rightarrow> string list" where
  "Split_from cur [] = [cur]"
| "Split_from cur (c # cs) =
     (if c = CHR ''/'' then cur # Split_from [] cs else Split_from (cur @ [c]) cs)"

definition Split_slash :: "string \<Rightarrow> string list" where
  "Split_slash s = Split_from [] s"

text \<open>An index expression \<^verbatim>\<open>xs[i]\<close> with a constant index: it panics out of range.\<close>

definition index_at :: "'a list \<Rightarrow> nat \<Rightarrow> panic + 'a" where
  "index_at xs i = (if i < length xs then Inr (xs ! i) else Inl IndexOutOfRange)"

text \<open>\<^verbatim>\<open>func (m *MasterProfile) IsCustomVNET() bool\<close>\<close>

definition Master_IsCustomVNET :: "MasterProfile \<Rightarrow> bool" where
  "Master_IsCustomVNET m = (length (Master_VnetSubnetID m) > 0)"

text \<open>\<^verbatim>\<open>func (a *AgentPoolProfile) IsCustomVNET() bool\<close>\<close>

definition AgentPool_IsCustomVNET :: "AgentPoolProfile \<Rightarrow> bool" where
  "AgentPool_IsCustomVNET a = (length (AgentPool_VnetSubnetID a) > 0)"

text \<open>
  \<^verbatim>\<open>func (p *Properties) AreAgentProfilesCustomVNET() bool\<close>: false for a nil slice,
  otherwise false at the first pool without a subnet id, and true after the loop.
\<close>

fun AreAgentProfilesCustomVNET_loop :: "AgentPoolProfile list \<Rightarrow> bool" where
  "AreAgentProfilesCustomVNET_loop [] = True"
| "AreAgentProfilesCustomVNET_loop (agentPoolProfile # rest) =
     (if \<not> AgentPool_IsCustomVNET agentPoolProfile then False
      else AreAgentProfilesCustomVNET_loop rest)"

definition AreAgentProfilesCustomVNET :: "Properties \<Rightarrow> bool" where
  "AreAgentProfilesCustomVNET p =
     (case AgentPoolProfiles p of
        Some xs \<Rightarrow> AreAgentProfilesCustomVNET_loop xs
      | None \<Rightarrow> False)"

text \<open>
  \<^verbatim>\<open>strings.Split(p.AgentPoolProfiles[0].VnetSubnetID, "/")[i]\<close>: the index 0 of
  the pools is taken first, then the segment i.
\<close>

definition first_pool_segment :: "Properties \<Rightarrow> nat \<Rightarrow> panic + string" where
  "first_pool_segment p i =
     (case index_at (pools p) 0 of
        Inl e \<Rightarrow> Inl e
      | Inr a \<Rightarrow> index_at (Split_slash (AgentPool_VnetSubnetID a)) i)"

text \<open>\<^verbatim>\<open>func (p *Properties) GetVNetResourceGroupName() string\<close>\<close>

definition GetVNetResourceGroupName :: "Properties \<Rightarrow> panic + string" where
  "GetVNetResourceGroupName p =
     (if IsHostedMasterProfile p \<and> AreAgentProfilesCustomVNET p then
        first_pool_segment p DefaultVnetResourceGroupSegmentIndex
      else if IsHostedMasterProfile p then Inr []
      else
        (case MasterProfile p of
           None \<Rightarrow> Inl NilDereference
         | Some m \<Rightarrow>
             if Master_IsCustomVNET m then
               index_at (Split_slash (Master_VnetSubnetID m)) DefaultVnetResourceGroupSegmentIndex
             else Inr []))"

text \<open>\<^verbatim>\<open>func (p *Properties) GetVirtualNetworkName() string\<close>\<close>

definition GetVirtualNetworkName ::
  "(64 word \<Rightarrow> 32 word) \<Rightarrow> Properties \<Rightarrow> panic + string \<times> Properties" where
  "GetVirtualNetworkName rnd p =
     (if IsHostedMasterProfile p \<and> AreAgentProfilesCustomVNET p then
        (case first_pool_segment p DefaultVnetNameResourceSegmentIndex of
           Inl e \<Rightarrow> Inl e
         | Inr vnetName \<Rightarrow> Inr (vnetName, p))
      else if IsHostedMasterProfile p then name_with_id rnd p ''-vnet-'' []
      else
        (case MasterProfile p of
           None \<Rightarrow> Inl NilDereference
         | Some m \<Rightarrow>
             if Master_IsCustomVNET m then
               (case index_at (Split_slash (Master_VnetSubnetID m))
                       DefaultVnetNameResourceSegmentIndex of
                  Inl e \<Rightarrow> Inl e
                | Inr vnetName \<Rightarrow> Inr (vnetName, p))
             else name_with_id rnd p ''-vnet-'' []))"

text \<open>\<^verbatim>\<open>func (p *Properties) GetSubnetName() string\<close>\<close>

definition GetSubnetName :: "Properties \<Rightarrow> panic + string" where
  "GetSubnetName p =
     (if IsHostedMasterProfile p then
        (if AreAgentProfilesCustomVNET p then
           first_pool_segment p DefaultSubnetNameResourceSegmentIndex
         else
           (case K8sOrchestratorName p of
              Inl e \<Rightarrow> Inl e
            | Inr code \<Rightarrow> Inr (code @ ''-subnet'')))
      else
        (case MasterProfile p of
           None \<Rightarrow> Inl NilDereference
         | Some m \<Rightarrow>
             if Master_IsCustomVNET m then
               index_at (Split_slash (Master_VnetSubnetID m)) DefaultSubnetNameResourceSegmentIndex
             else
               (case K8sOrchestratorName p of
                  Inl e \<Rightarrow> Inl e
                | Inr code \<Rightarrow> Inr (code @ ''-subnet''))))"

section \<open>The first static IP address of the master subnet\<close>

subsection \<open>Package net\<close>

text \<open>
  The method \<^verbatim>\<open>GetFirstConsecutiveStaticIPAddress\<close> calls \<^verbatim>\<open>net.ParseCIDR\<close>,
  \<^verbatim>\<open>IPMask.Size\<close> and \<^verbatim>\<open>IP.String\<close> of the Go standard library (package net, as of
  the Go 1.12 the repository builds with). Their IPv4 paths are embedded here function
  by function; the parser and the printer of IPv6 text are parameters
  (\<open>parseIPv6\<close>, which returns 16 bytes or nil, and \<open>ipv6String\<close>). A nil slice is the
  empty list.
\<close>

type_synonym IP = "byte list"
type_synonym IPMask = "byte list"

record IPNet =
  IPNet_IP :: IP
  IPNet_Mask :: IPMask

definition IPv4len :: nat where "IPv4len = 4"
definition IPv6len :: nat where "IPv6len = 16"

definition v4InV6Prefix :: "byte list" where
  "v4InV6Prefix = [0, 0, 0, 0, 0, 0, 0, 0, 0, 0, 0xff, 0xff]"

definition IPv4 :: "byte \<Rightarrow> byte \<Rightarrow> byte \<Rightarrow> byte \<Rightarrow> IP" where
  "IPv4 a b c d = v4InV6Prefix @ [a, b, c, d]"

text \<open>\<^verbatim>\<open>dtoi\<close>: the decimal number at the start of s, the count of its digits, and ok; not ok without a digit or from \<^verbatim>\<open>big\<close> on.\<close>

definition big :: nat where "big = 0xFFFFFF"

definition digit_val :: "char \<Rightarrow> nat" where
  "digit_val c = of_char c - 48"

fun dtoi_loop :: "nat \<Rightarrow> nat \<Rightarrow> string \<Rightarrow> nat \<times> nat \<times> bool" where
  "dtoi_loop n i [] = (n, i, True)"
| "dtoi_loop n i (c # cs) =
     (if is_digit c then
        (if n * 10 + digit_val c \<ge> big then (big, i, False)
         else dtoi_loop (n * 10 + digit_val c) (i + 1) cs)
      else (n, i, True))"

definition dtoi :: "string \<Rightarrow> nat \<times> nat \<times> bool" where
  "dtoi s =
     (case dtoi_loop 0 0 s of
        (n, i, ok) \<Rightarrow>
          if \<not> ok then (n, i, False)
          else if i = 0 then (0, 0, False)
          else (n, i, True))"

text \<open>\<^verbatim>\<open>parseIPv4\<close>: four numbers up to 255 with dots between them, and nothing after.\<close>

function parseIPv4_loop :: "nat \<Rightarrow> string \<Rightarrow> byte list \<Rightarrow> (string \<times> byte list) option" where
  "parseIPv4_loop i s p =
     (if i < IPv4len then
        (if length s = 0 then None
         else if i > 0 \<and> hd s \<noteq> CHR ''.'' then None
         else
           (case dtoi (if i > 0 then tl s else s) of
              (n, c, ok) \<Rightarrow>
                if \<not> ok \<or> n > 0xFF then None
                else parseIPv4_loop (i + 1) (drop c (if i > 0 then tl s else s))
                       (p[i := word_of_nat n])))
      else Some (s, p))"
  by pat_completeness auto
termination
  by (relation "measure (\<lambda>(i, s, p). IPv4len - i)") auto

declare parseIPv4_loop.simps [simp del]

definition parseIPv4 :: "string \<Rightarrow> IP option" where
  "parseIPv4 s =
     (case parseIPv4_loop 0 s [0, 0, 0, 0] of
        None \<Rightarrow> None
      | Some (rest, p) \<Rightarrow>
          if length rest \<noteq> 0 then None
          else Some (IPv4 (p ! 0) (p ! 1) (p ! 2) (p ! 3)))"

text \<open>\<^verbatim>\<open>CIDRMask(ones, bits)\<close>\<close>

fun CIDRMask_loop :: "nat \<Rightarrow> nat \<Rightarrow> byte list" where
  "CIDRMask_loop 0 n = []"
| "CIDRMask_loop (Suc l) n =
     (if n \<ge> 8 then 0xff # CIDRMask_loop l (n - 8)
      else NOT (drop_bit n 0xff) # CIDRMask_loop l 0)"

definition CIDRMask :: "nat \<Rightarrow> nat \<Rightarrow> IPMask" where
  "CIDRMask ones bits =
     (if bits \<noteq> 8 * IPv4len \<and> bits \<noteq> 8 * IPv6len then []
      else if ones > bits then []
      else CIDRMask_loop (bits div 8) ones)"

text \<open>\<^verbatim>\<open>func (ip IP) Mask(mask IPMask) IP\<close>\<close>

definition allFF :: "byte list \<Rightarrow> bool" where
  "allFF b = list_all (\<lambda>c. c = 0xff) b"

definition IP_Mask :: "IP \<Rightarrow> IPMask \<Rightarrow> IP" where
  "IP_Mask ip msk =
     (let mask1 = (if length msk = IPv6len \<and> length ip = IPv4len \<and> allFF (take 12 msk)
                   then drop 12 msk else msk);
          ip1 = (if length mask1 = IPv4len \<and> length ip = IPv6len \<and> take 12 ip = v4InV6Prefix
                 then drop 12 ip else ip)
      in if length ip1 \<noteq> length mask1 then [] else map2 (AND) ip1 mask1)"

text \<open>\<^verbatim>\<open>bytealg.IndexByteString\<close>: the first index of the byte, \<open>None\<close> for -1.\<close>

fun IndexByteString :: "string \<Rightarrow> char \<Rightarrow> nat option" where
  "IndexByteString [] c = None"
| "IndexByteString (x # xs) c =
     (if x = c then Some 0 else map_option Suc (IndexByteString xs c))"

text \<open>\<^verbatim>\<open>func ParseCIDR(s string) (IP, *IPNet, error)\<close>: \<open>None\<close> is the error.\<close>

definition ParseCIDR :: "(string \<Rightarrow> IP option) \<Rightarrow> string \<Rightarrow> (IP \<times> IPNet) option" where
  "ParseCIDR parseIPv6 s =
     (case IndexByteString s (CHR ''/'') of
        None \<Rightarrow> None
      | Some i \<Rightarrow>
          (case (case parseIPv4 (take i s) of
                   Some ip4 \<Rightarrow> (IPv4len, Some ip4)
                 | None \<Rightarrow> (IPv6len, parseIPv6 (take i s))) of
             (iplen, ipo) \<Rightarrow>
               (case dtoi (drop (i + 1) s) of
                  (n, j, ok) \<Rightarrow>
                    (case ipo of
                       None \<Rightarrow> None
                     | Some ip \<Rightarrow>
                         if \<not> ok \<or> j \<noteq> length (drop (i + 1) s) \<or> n > 8 * iplen then None
                         else Some (ip, \<lparr>IPNet_IP = IP_Mask ip (CIDRMask n (8 * iplen)),
                                        IPNet_Mask = CIDRMask n (8 * iplen)\<rparr>)))))"

text \<open>Two facts on bytes, for the termination of the bit loop below.\<close>

lemma top_bit_set_ge:
  assumes "(v :: byte) AND 0x80 \<noteq> 0"
  shows "128 \<le> unat v"
proof (rule ccontr)
  assume "\<not> 128 \<le> unat v"
  then have "unat v div 2 ^ 7 = 0" by simp
  then have "\<not> bit (unat v) 7" by (simp add: bit_iff_odd)
  then have "\<not> bit v 7" by (simp add: bit_unsigned_iff)
  then have "v AND 2 ^ 7 = 0" using and_exp_eq_0_iff_not_bit [of v 7] by blast
  with assms show False by simp
qed

lemma shift_decreases:
  assumes "(v :: byte) AND 0x80 \<noteq> 0"
  shows "unat (v * 2) < unat v"
proof -
  have a: "128 \<le> unat v" using assms by (rule top_bit_set_ge)
  have b: "unat v < 256" using unsigned_less [of v] by simp
  have "unat (v * 2) = (2 * unat v) mod 256"
    by (simp add: unat_word_ariths mult.commute)
  also have "\<dots> = (2 * unat v - 256) mod 256"
    using a by (simp add: le_mod_geq)
  also have "\<dots> = 2 * unat v - 256"
    using b by simp
  finally show ?thesis using a b by simp
qed

text \<open>\<^verbatim>\<open>simpleMaskLength\<close> and \<^verbatim>\<open>func (m IPMask) Size() (ones, bits int)\<close>. The inner loop \<^verbatim>\<open>for v&0x80 != 0 { n++; v <<= 1 }\<close> is \<open>leading_ones\<close>.\<close>

function leading_ones :: "int \<Rightarrow> byte \<Rightarrow> int \<times> byte" where
  "leading_ones n v =
     (if v AND 0x80 \<noteq> 0 then leading_ones (n + 1) (push_bit 1 v) else (n, v))"
  by pat_completeness auto
termination
  by (relation "measure (\<lambda>(n, v). unat v)") (auto simp: shift_decreases)

declare leading_ones.simps [simp del]

fun all_zero_from :: "byte list \<Rightarrow> bool" where
  "all_zero_from [] = True"
| "all_zero_from (b # rest) = (if b \<noteq> 0 then False else all_zero_from rest)"

fun simpleMaskLength_loop :: "int \<Rightarrow> byte list \<Rightarrow> int" where
  "simpleMaskLength_loop n [] = n"
| "simpleMaskLength_loop n (v # rest) =
     (if v = 0xff then simpleMaskLength_loop (n + 8) rest
      else if snd (leading_ones n v) \<noteq> 0 then - 1
      else if \<not> all_zero_from rest then - 1
      else fst (leading_ones n v))"

definition simpleMaskLength :: "IPMask \<Rightarrow> int" where
  "simpleMaskLength msk = simpleMaskLength_loop 0 msk"

definition IPMask_Size :: "IPMask \<Rightarrow> int \<times> int" where
  "IPMask_Size m =
     (if simpleMaskLength m = - 1 then (0, 0)
      else (simpleMaskLength m, int (length m) * 8))"

text \<open>\<^verbatim>\<open>func (ip IP) To4() IP\<close> and \<^verbatim>\<open>func (ip IP) String() string\<close>\<close>

definition isZeros :: "byte list \<Rightarrow> bool" where
  "isZeros p = list_all (\<lambda>b. b = 0) p"

definition IP_To4 :: "IP \<Rightarrow> IP" where
  "IP_To4 ip =
     (if length ip = IPv4len then ip
      else if length ip = IPv6len \<and> isZeros (take 10 ip) \<and> ip ! 10 = 0xff \<and> ip ! 11 = 0xff
      then take 4 (drop 12 ip)
      else [])"

definition hexDigit :: string where
  "hexDigit = ''0123456789abcdef''"

definition hexString :: "byte list \<Rightarrow> string" where
  "hexString b =
     concat (map (\<lambda>tn. [hexDigit ! unat (drop_bit 4 tn), hexDigit ! unat (tn AND 0xf)]) b)"

definition IP_String :: "(IP \<Rightarrow> string) \<Rightarrow> IP \<Rightarrow> string" where
  "IP_String ipv6String ip =
     (if length ip = 0 then ''<nil>''
      else if length (IP_To4 ip) = IPv4len then
        uitoa (unat (IP_To4 ip ! 0)) @ ''.'' @ uitoa (unat (IP_To4 ip ! 1)) @ ''.''
          @ uitoa (unat (IP_To4 ip ! 2)) @ ''.'' @ uitoa (unat (IP_To4 ip ! 3))
      else if length ip \<noteq> IPv6len then ''?'' @ hexString ip
      else ipv6String ip)"

text \<open>The assignments \<^verbatim>\<open>xs[i] = v\<close> and \<^verbatim>\<open>xs[i] |= v\<close> with an int index: they panic out of range.\<close>

definition set_index :: "'a list \<Rightarrow> int \<Rightarrow> 'a \<Rightarrow> panic + 'a list" where
  "set_index xs i v =
     (if 0 \<le> i \<and> i < int (length xs) then Inr (xs[nat i := v]) else Inl IndexOutOfRange)"

definition or_index :: "byte list \<Rightarrow> int \<Rightarrow> byte \<Rightarrow> panic + byte list" where
  "or_index xs i v =
     (if 0 \<le> i \<and> i < int (length xs) then Inr (xs[nat i := (xs ! nat i) OR v])
      else Inl IndexOutOfRange)"

text \<open>\<^verbatim>\<open>for i := firstOctet + 1; i < lastOctet; i++ { subnet.IP[i] = 255 }\<close>\<close>

function fill_loop :: "int \<Rightarrow> int \<Rightarrow> IP \<Rightarrow> panic + IP" where
  "fill_loop i lastOctet ip =
     (if i < lastOctet then
        (case set_index ip i 255 of
           Inl e \<Rightarrow> Inl e
         | Inr ip' \<Rightarrow> fill_loop (i + 1) lastOctet ip')
      else Inr ip)"
  by pat_completeness auto
termination
  by (relation "measure (\<lambda>(i, lastOctet, ip). nat (lastOctet - i))") auto

declare fill_loop.simps [simp del]

subsection \<open>GetFirstConsecutiveStaticIPAddress\<close>

definition DefaultFirstConsecutiveKubernetesStaticIP :: string where
  "DefaultFirstConsecutiveKubernetesStaticIP = ''10.240.255.5''"

definition DefaultKubernetesFirstConsecutiveStaticIPOffset :: byte where
  "DefaultKubernetesFirstConsecutiveStaticIPOffset = 5"

definition DefaultKubernetesFirstConsecutiveStaticIPOffsetVMSS :: byte where
  "DefaultKubernetesFirstConsecutiveStaticIPOffsetVMSS = 4"


text \<open>\<^verbatim>\<open>func (m *MasterProfile) IsVirtualMachineScaleSets() bool\<close>\<close>

definition Master_IsVirtualMachineScaleSets :: "MasterProfile \<Rightarrow> bool" where
  "Master_IsVirtualMachineScaleSets m = (Master_AvailabilityProfile m = VirtualMachineScaleSets)"

text \<open>
  The body of \<^verbatim>\<open>GetFirstConsecutiveStaticIPAddress\<close> after the parse: \<open>ones div 8\<close>
  is \<^verbatim>\<open>firstOctet\<close> and \<open>bits div 8 - 1\<close> is \<^verbatim>\<open>lastOctet\<close>. The shift
  \<^verbatim>\<open>(1 << byte(8 - (ones % 8))) - 1\<close> is computed in the type byte, where
  \<^verbatim>\<open>1 << 8\<close> is 0 and \<^verbatim>\<open>0 - 1\<close> is 255.
\<close>

definition static_ip_of_subnet :: "bool \<Rightarrow> IPNet \<Rightarrow> panic + IP" where
  "static_ip_of_subnet vmss subnet =
     (case IPMask_Size (IPNet_Mask subnet) of
        (ones, bits) \<Rightarrow>
          if vmss then
            set_index (IPNet_IP subnet) (bits div 8 - 1)
              DefaultKubernetesFirstConsecutiveStaticIPOffsetVMSS
          else
            (case or_index (IPNet_IP subnet) (ones div 8)
                    (push_bit (nat (8 - ones mod 8)) 1 - 1) of
               Inl e \<Rightarrow> Inl e
             | Inr ip1 \<Rightarrow>
                 (case fill_loop (ones div 8 + 1) (bits div 8 - 1) ip1 of
                    Inl e \<Rightarrow> Inl e
                  | Inr ip2 \<Rightarrow>
                      set_index ip2 (bits div 8 - 1)
                        DefaultKubernetesFirstConsecutiveStaticIPOffset)))"

text \<open>\<^verbatim>\<open>func (m *MasterProfile) GetFirstConsecutiveStaticIPAddress(subnetStr string) string\<close>\<close>

definition GetFirstConsecutiveStaticIPAddress ::
  "(string \<Rightarrow> IP option) \<Rightarrow> (IP \<Rightarrow> string) \<Rightarrow> MasterProfile \<Rightarrow> string \<Rightarrow> panic + string" where
  "GetFirstConsecutiveStaticIPAddress parseIPv6 ipv6String m subnetStr =
     (case ParseCIDR parseIPv6 subnetStr of
        None \<Rightarrow> Inr DefaultFirstConsecutiveKubernetesStaticIP
      | Some (ip, subnet) \<Rightarrow>
          (case static_ip_of_subnet (Master_IsVirtualMachineScaleSets m) subnet of
             Inl e \<Rightarrow> Inl e
           | Inr ip' \<Rightarrow> Inr (IP_String ipv6String ip')))"


section \<open>Concurrent calls of GetClusterID\<close>

text \<open>
  One call of \<^verbatim>\<open>GetClusterID\<close> in the steps that touch what other calls can see: the
  test \<^verbatim>\<open>p.ClusterID == ""\<close>, the hash of the prefix, \<^verbatim>\<open>mutex.Lock()\<close>, the
  assignment to \<^verbatim>\<open>p.ClusterID\<close>, \<^verbatim>\<open>mutex.Unlock()\<close> and the read of the
  \<^verbatim>\<open>return\<close>. A call is at one of these steps, or has returned its string.
\<close>

datatype call_pc =
    AtTest
  | AtHash
  | AtLock "64 word"
  | AtWrite "64 word"
  | AtUnlock
  | AtReturn
  | Returned string

text \<open>
  The calls share the \<^verbatim>\<open>Properties\<close>. The statement
  \<^verbatim>\<open>var mutex = &sync.Mutex{}\<close> is inside the method, so every call has a mutex of its
  own: \<open>mutexes\<close> holds one per call. The counters record how often the id was computed
  and assigned and how often a call found its mutex locked.
\<close>

record race_state =
  shared :: Properties
  calls :: "call_pc list"
  mutexes :: "bool list"
  computed :: nat
  blocked :: nat

text \<open>The hash \<^verbatim>\<open>h.Sum64()\<close> after the writes of the \<^verbatim>\<open>if\<close> chain.\<close>

definition hash_of_prefix :: "Properties \<Rightarrow> 64 word" where
  "hash_of_prefix p =
     Sum64
       (case MasterProfile p of
          Some m \<Rightarrow> fnv64a_Write New64a (bytes_of (Master_DNSPrefix m))
        | None \<Rightarrow>
            (case HostedMasterProfile p of
               Some hm \<Rightarrow> fnv64a_Write New64a (bytes_of (HostedMaster_DNSPrefix hm))
             | None \<Rightarrow>
                 (case pools p of
                    a # _ \<Rightarrow> fnv64a_Write New64a (bytes_of (AgentPool_Name a))
                  | [] \<Rightarrow> New64a)))"

text \<open>n calls on the same \<^verbatim>\<open>Properties\<close>, none of them started.\<close>

definition race_init :: "Properties \<Rightarrow> nat \<Rightarrow> race_state" where
  "race_init p n =
     \<lparr>shared = p, calls = replicate n AtTest, mutexes = replicate n False,
      computed = 0, blocked = 0\<rparr>"

text \<open>
  The next step of call i, each access to the shared field taken as one atomic step.
\<close>

definition race_step :: "(64 word \<Rightarrow> 32 word) \<Rightarrow> race_state \<Rightarrow> nat \<Rightarrow> race_state" where
  "race_step rnd st i =
     (if i < length (calls st) then
        (case calls st ! i of
           AtTest \<Rightarrow>
             st\<lparr>calls := (calls st)[i := (if ClusterID (shared st) = [] then AtHash else AtReturn)]\<rparr>
         | AtHash \<Rightarrow>
             st\<lparr>calls := (calls st)[i := AtLock (hash_of_prefix (shared st))]\<rparr>
         | AtLock seed \<Rightarrow>
             (if mutexes st ! i then st\<lparr>blocked := blocked st + 1\<rparr>
              else st\<lparr>mutexes := (mutexes st)[i := True],
                      calls := (calls st)[i := AtWrite seed]\<rparr>)
         | AtWrite seed \<Rightarrow>
             st\<lparr>shared := (shared st)\<lparr>ClusterID := take 8 (Sprintf_08d (unat (rnd seed)))\<rparr>,
                calls := (calls st)[i := AtUnlock],
                computed := computed st + 1\<rparr>
         | AtUnlock \<Rightarrow>
             st\<lparr>mutexes := (mutexes st)[i := False], calls := (calls st)[i := AtReturn]\<rparr>
         | AtReturn \<Rightarrow>
             st\<lparr>calls := (calls st)[i := Returned (ClusterID (shared st))]\<rparr>
         | Returned s \<Rightarrow> st)
      else st)"

text \<open>The calls interleaved as a schedule says: the list of the calls that step, in order.\<close>

definition race_run :: "(64 word \<Rightarrow> 32 word) \<Rightarrow> nat list \<Rightarrow> race_state \<Rightarrow> race_state" where
  "race_run rnd schedule st = foldl (race_step rnd) st schedule"

text \<open>A mutex is held only by its own call, between its lock and its unlock.\<close>

definition own_mutex_free :: "race_state \<Rightarrow> bool" where
  "own_mutex_free st =
     (length (mutexes st) = length (calls st)
      \<and> (\<forall>i. i < length (calls st) \<longrightarrow> mutexes st ! i \<longrightarrow>
             (\<exists>seed. calls st ! i = AtWrite seed) \<or> calls st ! i = AtUnlock))"

section \<open>The vlabs converter of the custom cloud profile\<close>

text \<open>
  The structs that the test \<^verbatim>\<open>TestConvertAzureEnvironmentSpecConfigToVLabs\<close> builds:
  the fields are those of its composite literal.
\<close>

record DockerSpecConfig =
  DockerEngineRepo :: string
  DockerComposeDownloadURL :: string

record KubernetesSpecConfig =
  KubernetesImageBase :: string
  TillerImageBase :: string
  ACIConnectorImageBase :: string
  NVIDIAImageBase :: string
  AzureCNIImageBase :: string
  CalicoImageBase :: string
  EtcdDownloadURLBase :: string
  KubeBinariesSASURLBase :: string
  WindowsTelemetryGUID :: string
  CNIPluginsDownloadURL :: string
  VnetCNILinuxPluginsDownloadURL :: string
  VnetCNIWindowsPluginsDownloadURL :: string
  ContainerdDownloadURLBase :: string

record DCOSSpecConfig =
  DCOS188BootstrapDownloadURL :: string
  DCOS190BootstrapDownloadURL :: string
  DCOS198BootstrapDownloadURL :: string
  DCOS110BootstrapDownloadURL :: string
  DCOS111BootstrapDownloadURL :: string
  DCOSWindowsBootstrapDownloadURL :: string
  DcosRepositoryURL :: string
  DcosClusterPackageListID :: string
  DcosProviderPackageID :: string

record AzureEndpointConfig =
  ResourceManagerVMDNSSuffix :: string

record AzureOSImageConfig =
  ImageOffer :: string
  ImageSku :: string
  ImagePublisher :: string
  ImageVersion :: string

record AzureEnvironmentSpecConfig =
  CloudName :: string
  DockerSpecConfig :: DockerSpecConfig
  KubernetesSpecConfig :: KubernetesSpecConfig
  DCOSSpecConfig :: DCOSSpecConfig
  EndpointConfig :: AzureEndpointConfig
  OSImageConfig :: "string \<rightharpoonup> AzureOSImageConfig"

record CustomCloudProfile =
  AzureEnvironmentSpecConfig :: "AzureEnvironmentSpecConfig option"
  IdentitySystem :: string
  AuthenticationMethod :: string

text \<open>
  \<^verbatim>\<open>Properties\<close> with its field \<^verbatim>\<open>CustomCloudProfile\<close>, which only the converter reads,
  and the \<^verbatim>\<open>ContainerService\<close> that owns the properties.
\<close>

record CloudProperties = Properties +
  CustomCloudProfile :: "CustomCloudProfile option"

record ContainerService =
  CS_Properties :: "CloudProperties option"

text \<open>Modelled from the spec: the package vlabs is not in the sources, only the test
  that reads its structs. The vlabs structs get the fields of their canonical
  counterparts, since the converted document "must match every source value" (the test
  compares all of them but \<^verbatim>\<open>CalicoImageBase\<close>).
\<close>

record vlabs_DockerSpecConfig =
  vlabs_DockerEngineRepo :: string
  vlabs_DockerComposeDownloadURL :: string

record vlabs_KubernetesSpecConfig =
  vlabs_KubernetesImageBase :: string
  vlabs_TillerImageBase :: string
  vlabs_ACIConnectorImageBase :: string
  vlabs_NVIDIAImageBase :: string
  vlabs_AzureCNIImageBase :: string
  vlabs_CalicoImageBase :: string
  vlabs_EtcdDownloadURLBase :: string
  vlabs_KubeBinariesSASURLBase :: string
  vlabs_WindowsTelemetryGUID :: string
  vlabs_CNIPluginsDownloadURL :: string
  vlabs_VnetCNILinuxPluginsDownloadURL :: string
  vlabs_VnetCNIWindowsPluginsDownloadURL :: string
  vlabs_ContainerdDownloadURLBase :: string

record vlabs_DCOSSpecConfig =
  vlabs_DCOS188BootstrapDownloadURL :: string
  vlabs_DCOS190BootstrapDownloadURL :: string
  vlabs_DCOS198BootstrapDownloadURL :: string
  vlabs_DCOS110BootstrapDownloadURL :: string
  vlabs_DCOS111BootstrapDownloadURL :: string
  vlabs_DCOSWindowsBootstrapDownloadURL :: string
  vlabs_DcosRepositoryURL :: string
  vlabs_DcosClusterPackageListID :: string
  vlabs_DcosProviderPackageID :: string

record vlabs_AzureEndpointConfig =
  vlabs_ResourceManagerVMDNSSuffix :: string

record vlabs_AzureOSImageConfig =
  vlabs_ImageOffer :: string
  vlabs_ImageSku :: string
  vlabs_ImagePublisher :: string
  vlabs_ImageVersion :: string

record vlabs_AzureEnvironmentSpecConfig =
  vlabs_CloudName :: string
  vlabs_DockerSpecConfig :: vlabs_DockerSpecConfig
  vlabs_KubernetesSpecConfig :: vlabs_KubernetesSpecConfig
  vlabs_DCOSSpecConfig :: vlabs_DCOSSpecConfig
  vlabs_EndpointConfig :: vlabs_AzureEndpointConfig
  vlabs_OSImageConfig :: "string \<rightharpoonup> vlabs_AzureOSImageConfig"

record vlabs_CustomCloudProfile =
  vlabs_AzureEnvironmentSpecConfig :: "vlabs_AzureEnvironmentSpecConfig option"
  vlabs_IdentitySystem :: string
  vlabs_AuthenticationMethod :: string

record vlabs_Properties =
  vlabs_CustomCloudProfile :: "vlabs_CustomCloudProfile option"

record vlabs_ContainerService =
  vlabs_CS_Properties :: "vlabs_Properties option"

text \<open>Modelled from the spec: the converter \<^verbatim>\<open>ConvertContainerServiceToVLabs\<close> is not
  in the sources, only the test that calls it. It is the "field-by-field copy" of
  section 4.3 of the specification; the OS image map is converted "by iterating source
  entries and re-keying into the target map type", the key \<^verbatim>\<open>vlabs.Distro(string(k))\<close>
  having the bytes of k. A missing optional profile stays missing ("conversion never
  fails on missing optional fields"); the required \<^verbatim>\<open>Properties\<close> being absent is a
  failure.
\<close>

datatype conversion_error = MissingProperties

text \<open>Modelled from the spec: the copy of the Docker sub-config, field by field; the converter is not in the sources.\<close>

definition convertDockerSpecConfigToVLabs :: "DockerSpecConfig \<Rightarrow> vlabs_DockerSpecConfig" where
  "convertDockerSpecConfigToVLabs d =
     \<lparr>vlabs_DockerEngineRepo = DockerEngineRepo d,
      vlabs_DockerComposeDownloadURL = DockerComposeDownloadURL d\<rparr>"

text \<open>Modelled from the spec: the copy of the Kubernetes sub-config, field by field; the converter is not in the sources.\<close>

definition convertKubernetesSpecConfigToVLabs ::
  "KubernetesSpecConfig \<Rightarrow> vlabs_KubernetesSpecConfig" where
  "convertKubernetesSpecConfigToVLabs k =
     \<lparr>vlabs_KubernetesImageBase = KubernetesImageBase k,
      vlabs_TillerImageBase = TillerImageBase k,
      vlabs_ACIConnectorImageBase = ACIConnectorImageBase k,
      vlabs_NVIDIAImageBase = NVIDIAImageBase k,
      vlabs_AzureCNIImageBase = AzureCNIImageBase k,
      vlabs_CalicoImageBase = CalicoImageBase k,
      vlabs_EtcdDownloadURLBase = EtcdDownloadURLBase k,
      vlabs_KubeBinariesSASURLBase = KubeBinariesSASURLBase k,
      vlabs_WindowsTelemetryGUID = WindowsTelemetryGUID k,
      vlabs_CNIPluginsDownloadURL = CNIPluginsDownloadURL k,
      vlabs_VnetCNILinuxPluginsDownloadURL = VnetCNILinuxPluginsDownloadURL k,
      vlabs_VnetCNIWindowsPluginsDownloadURL = VnetCNIWindowsPluginsDownloadURL k,
      vlabs_ContainerdDownloadURLBase = ContainerdDownloadURLBase k\<rparr>"

text \<open>Modelled from the spec: the copy of the DCOS sub-config, field by field; the converter is not in the sources.\<close>

definition convertDCOSSpecConfigToVLabs :: "DCOSSpecConfig \<Rightarrow> vlabs_DCOSSpecConfig" where
  "convertDCOSSpecConfigToVLabs d =
     \<lparr>vlabs_DCOS188BootstrapDownloadURL = DCOS188BootstrapDownloadURL d,
      vlabs_DCOS190BootstrapDownloadURL = DCOS190BootstrapDownloadURL d,
      vlabs_DCOS198BootstrapDownloadURL = DCOS198BootstrapDownloadURL d,
      vlabs_DCOS110BootstrapDownloadURL = DCOS110BootstrapDownloadURL d,
      vlabs_DCOS111BootstrapDownloadURL = DCOS111BootstrapDownloadURL d,
      vlabs_DCOSWindowsBootstrapDownloadURL = DCOSWindowsBootstrapDownloadURL d,
      vlabs_DcosRepositoryURL = DcosRepositoryURL d,
      vlabs_DcosClusterPackageListID = DcosClusterPackageListID d,
      vlabs_DcosProviderPackageID = DcosProviderPackageID d\<rparr>"

text \<open>Modelled from the spec: the copy of the endpoint config; the converter is not in the sources.\<close>

definition convertAzureEndpointConfigToVLabs ::
  "AzureEndpointConfig \<Rightarrow> vlabs_AzureEndpointConfig" where
  "convertAzureEndpointConfigToVLabs e =
     \<lparr>vlabs_ResourceManagerVMDNSSuffix = ResourceManagerVMDNSSuffix e\<rparr>"

text \<open>Modelled from the spec: the copy of one OS image entry, field by field; the converter is not in the sources.\<close>

definition convertAzureOSImageConfigToVLabs ::
  "AzureOSImageConfig \<Rightarrow> vlabs_AzureOSImageConfig" where
  "convertAzureOSImageConfigToVLabs v =
     \<lparr>vlabs_ImageOffer = ImageOffer v,
      vlabs_ImageSku = ImageSku v,
      vlabs_ImagePublisher = ImagePublisher v,
      vlabs_ImageVersion = ImageVersion v\<rparr>"

text \<open>Modelled from the spec: the copy of the environment spec config, which is not in the sources; every entry of the OS image map is converted under its own key.\<close>

definition convertAzureEnvironmentSpecConfigToVLabs ::
  "AzureEnvironmentSpecConfig \<Rightarrow> vlabs_AzureEnvironmentSpecConfig" where
  "convertAzureEnvironmentSpecConfigToVLabs a =
     \<lparr>vlabs_CloudName = CloudName a,
      vlabs_DockerSpecConfig = convertDockerSpecConfigToVLabs (DockerSpecConfig a),
      vlabs_KubernetesSpecConfig = convertKubernetesSpecConfigToVLabs (KubernetesSpecConfig a),
      vlabs_DCOSSpecConfig = convertDCOSSpecConfigToVLabs (DCOSSpecConfig a),
      vlabs_EndpointConfig = convertAzureEndpointConfigToVLabs (EndpointConfig a),
      vlabs_OSImageConfig =
        (\<lambda>k. map_option convertAzureOSImageConfigToVLabs (OSImageConfig a k))\<rparr>"

text \<open>Modelled from the spec: the copy of the custom cloud profile, which is not in the sources; a nil spec config stays nil.\<close>

definition convertCustomCloudProfileToVLabs ::
  "CustomCloudProfile \<Rightarrow> vlabs_CustomCloudProfile" where
  "convertCustomCloudProfileToVLabs c =
     \<lparr>vlabs_AzureEnvironmentSpecConfig =
        map_option convertAzureEnvironmentSpecConfigToVLabs (AzureEnvironmentSpecConfig c),
      vlabs_IdentitySystem = IdentitySystem c,
      vlabs_AuthenticationMethod = AuthenticationMethod c\<rparr>"

text \<open>Modelled from the spec: the entry point \<^verbatim>\<open>ConvertContainerServiceToVLabs\<close>, which is not in the sources, on the part of the document that the custom cloud profile makes.\<close>

definition ConvertContainerServiceToVLabs ::
  "ContainerService \<Rightarrow> conversion_error + vlabs_ContainerService" where
  "ConvertContainerServiceToVLabs cs =
     (case CS_Properties cs of
        None \<Rightarrow> Inl MissingProperties
      | Some p \<Rightarrow>
          Inr \<lparr>vlabs_CS_Properties =
                 Some \<lparr>vlabs_CustomCloudProfile =
                         map_option convertCustomCloudProfileToVLabs (CustomCloudProfile p)\<rparr>\<rparr>)"

section \<open>The cluster id as the specification words it\<close>

text \<open>
  The first available identifying string: the master DNS prefix, else the hosted-master
  DNS prefix, else the name of the first agent pool (and the empty string when there is
  none of them).
\<close>

definition identifying_string :: "Properties \<Rightarrow> string" where
  "identifying_string p =
     (case MasterProfile p of
        Some m \<Rightarrow> Master_DNSPrefix m
      | None \<Rightarrow>
          (case HostedMasterProfile p of
             Some hm \<Rightarrow> HostedMaster_DNSPrefix hm
           | None \<Rightarrow> (case pools p of a # _ \<Rightarrow> AgentPool_Name a | [] \<Rightarrow> [])))"

text \<open>
  The FNV-64a hash of the string seeds the generator; the id is the first 8 characters
  of its first uint32, written in decimal and zero-padded to width 8.
\<close>

definition cluster_id_of :: "(64 word \<Rightarrow> 32 word) \<Rightarrow> string \<Rightarrow> string" where
  "cluster_id_of rnd s =
     take 8 (Sprintf_08d (unat (rnd (fnv64a_Write fnv_offset64 (bytes_of s)))))"

section \<open>Example clusters\<close>

text \<open>
  A sample generator for the examples: it returns the low 32 bits of its seed. It is not
  the generator of \<^verbatim>\<open>math/rand\<close>; the theorems below hold for every generator.
\<close>

definition low_bits :: "64 word \<Rightarrow> 32 word" where
  "low_bits seed = ucast seed"

definition example_subnet_id :: string where
  "example_subnet_id =
     ''/subscriptions/sub1/resourceGroups/rg1/providers/Microsoft.Network/virtualNetworks/vnet1/subnets/subnet1''"

text \<open>A self-hosted Kubernetes cluster on a custom virtual network.\<close>

definition example_master :: MasterProfile where
  "example_master =
     \<lparr>Master_DNSPrefix = ''a'', Master_VnetSubnetID = example_subnet_id,
      Master_AvailabilityProfile = ''AvailabilitySet''\<rparr>"

definition example_master_vmss :: MasterProfile where
  "example_master_vmss =
     \<lparr>Master_DNSPrefix = ''a'', Master_VnetSubnetID = [],
      Master_AvailabilityProfile = ''VirtualMachineScaleSets''\<rparr>"

text \<open>Stand-ins for the IPv6 parameters: a parser that rejects every text.\<close>

definition no_parseIPv6 :: "string \<Rightarrow> IP option" where
  "no_parseIPv6 a = None"

definition no_ipv6String :: "IP \<Rightarrow> string" where
  "no_ipv6String ip = []"

definition example_selfhosted :: Properties where
  "example_selfhosted =
     \<lparr>ClusterID = [],
      OrchestratorProfile = Some \<lparr>OrchestratorType = ''Kubernetes'', OrchestratorVersion = []\<rparr>,
      MasterProfile = Some example_master,
      AgentPoolProfiles = Some [\<lparr>AgentPool_Name = ''agentpool1'', AgentPool_OSType = ''Linux'',
        AgentPool_AvailabilityProfile = ''AvailabilitySet'',
        AgentPool_VnetSubnetID = example_subnet_id\<rparr>],
      HostedMasterProfile = None\<rparr>"

text \<open>A hosted-master Kubernetes cluster whose agent pool is on a custom virtual network.\<close>

definition example_pool :: AgentPoolProfile where
  "example_pool =
     \<lparr>AgentPool_Name = ''agentpool1'', AgentPool_OSType = ''Linux'',
      AgentPool_AvailabilityProfile = ''VirtualMachineScaleSets'',
      AgentPool_VnetSubnetID = example_subnet_id\<rparr>"

definition example_hosted :: Properties where
  "example_hosted =
     \<lparr>ClusterID = [],
      OrchestratorProfile = Some \<lparr>OrchestratorType = ''Kubernetes'', OrchestratorVersion = []\<rparr>,
      MasterProfile = None,
      AgentPoolProfiles = Some [example_pool],
      HostedMasterProfile = Some \<lparr>HostedMaster_DNSPrefix = ''b''\<rparr>\<rparr>"

text \<open>A Swarm cluster with a master and no custom virtual network.\<close>

definition example_swarm :: Properties where
  "example_swarm =
     \<lparr>ClusterID = [],
      OrchestratorProfile = Some \<lparr>OrchestratorType = ''Swarm'', OrchestratorVersion = []\<rparr>,
      MasterProfile = Some \<lparr>Master_DNSPrefix = ''a'', Master_VnetSubnetID = [],
        Master_AvailabilityProfile = ''AvailabilitySet''\<rparr>,
      AgentPoolProfiles = None,
      HostedMasterProfile = None\<rparr>"

text \<open>The same cluster with a cluster id already stored in the field.\<close>

definition example_stored :: Properties where
  "example_stored = example_swarm\<lparr>ClusterID := ''abc''\<rparr>"

text \<open>The custom cloud profile of the test, with its first OS image entry.\<close>

definition ADFSIdentitySystem :: string where
  "ADFSIdentitySystem = ''adfs''"

definition ClientCertificateAuthMethod :: string where
  "ClientCertificateAuthMethod = ''client_certificate''"

definition example_spec_config :: AzureEnvironmentSpecConfig where
  "example_spec_config =
     \<lparr>CloudName = ''AzureStackCloud'',
      DockerSpecConfig =
        \<lparr>DockerEngineRepo = ''DockerEngineRepo'',
         DockerComposeDownloadURL = ''DockerComposeDownloadURL''\<rparr>,
      KubernetesSpecConfig =
        \<lparr>KubernetesImageBase = ''KubernetesImageBase'',
         TillerImageBase = ''TillerImageBase'',
         ACIConnectorImageBase = ''ACIConnectorImageBase'',
         NVIDIAImageBase = ''NVIDIAImageBase'',
         AzureCNIImageBase = ''AzureCNIImageBase'',
         CalicoImageBase = ''CalicoImageBase'',
         EtcdDownloadURLBase = ''EtcdDownloadURLBase'',
         KubeBinariesSASURLBase = ''KubeBinariesSASURLBase'',
         WindowsTelemetryGUID = ''WindowsTelemetryGUID'',
         CNIPluginsDownloadURL = ''CNIPluginsDownloadURL'',
         VnetCNILinuxPluginsDownloadURL = ''VnetCNILinuxPluginsDownloadURL'',
         VnetCNIWindowsPluginsDownloadURL = ''VnetCNIWindowsPluginsDownloadURL'',
         ContainerdDownloadURLBase = ''ContainerdDownloadURLBase''\<rparr>,
      DCOSSpecConfig =
        \<lparr>DCOS188BootstrapDownloadURL = ''DCOS188BootstrapDownloadURL'',
         DCOS190BootstrapDownloadURL = ''DCOS190BootstrapDownloadURL'',
         DCOS198BootstrapDownloadURL = ''DCOS198BootstrapDownloadURL'',
         DCOS110BootstrapDownloadURL = ''DCOS110BootstrapDownloadURL'',
         DCOS111BootstrapDownloadURL = ''DCOS111BootstrapDownloadURL'',
         DCOSWindowsBootstrapDownloadURL = ''DCOSWindowsBootstrapDownloadURL'',
         DcosRepositoryURL = ''DcosRepositoryURL'',
         DcosClusterPackageListID = ''DcosClusterPackageListID'',
         DcosProviderPackageID = ''DcosProviderPackageID''\<rparr>,
      EndpointConfig = \<lparr>ResourceManagerVMDNSSuffix = ''ResourceManagerVMDNSSuffix''\<rparr>,
      OSImageConfig =
        [''Test'' \<mapsto>
           \<lparr>ImageOffer = ''ImageOffer'', ImageSku = ''ImageSku'',
            ImagePublisher = ''ImagePublisher'', ImageVersion = ''ImageVersion''\<rparr>]\<rparr>"

definition example_cloud_service :: ContainerService where
  "example_cloud_service =
     \<lparr>CS_Properties = Some
        \<lparr>ClusterID = [], OrchestratorProfile = None, MasterProfile = None,
         AgentPoolProfiles = None, HostedMasterProfile = None,
         CustomCloudProfile = Some
           \<lparr>AzureEnvironmentSpecConfig = Some example_spec_config,
            IdentitySystem = ADFSIdentitySystem,
            AuthenticationMethod = ClientCertificateAuthMethod\<rparr>\<rparr>\<rparr>"

section \<open>Properties of the topology predicates\<close>

lemma HasWindows_loop_iff:
  "HasWindows_loop xs = (\<exists>a. a \<in> set xs \<and> AgentPool_OSType a = Windows)"
  by (induction xs) auto

text \<open>
  Claim C6. \<^verbatim>\<open>HasWindows\<close> is true exactly when some entry of the agent-pool list has
  OSType Windows; it is false when the list is empty (nil or of length 0). The function
  reads the pools and returns a boolean only: it has no access to a state it could change.
\<close>

theorem HasWindows_iff_some_pool_is_Windows:
  "HasWindows p = (\<exists>a. a \<in> set (pools p) \<and> AgentPool_OSType a = Windows)
   \<and> (pools p = [] \<longrightarrow> \<not> HasWindows p)"
  by (simp add: HasWindows_def HasWindows_loop_iff)

theorem HasWindows_iff_some_pool_is_Windows_witness:
  "pools \<lparr>ClusterID = [], OrchestratorProfile = None, MasterProfile = None,
      AgentPoolProfiles = Some [], HostedMasterProfile = None\<rparr> = []
   \<and> \<not> HasWindows \<lparr>ClusterID = [], OrchestratorProfile = None, MasterProfile = None,
      AgentPoolProfiles = Some [], HostedMasterProfile = None\<rparr>"
  using HasWindows_iff_some_pool_is_Windows
    [of "\<lparr>ClusterID = [], OrchestratorProfile = None, MasterProfile = None,
      AgentPoolProfiles = Some [], HostedMasterProfile = None\<rparr>"]
  by (simp add: pools_def)

section \<open>Properties of the addon accessors\<close>

lemma GetAddonByName_loop_find:
  "GetAddonByName_loop xs n =
     (case find (\<lambda>x. Addon_Name x = n) xs of None \<Rightarrow> zero_KubernetesAddon | Some a \<Rightarrow> a)"
  by (induction xs) auto

text \<open>
  Claim C9. An addon whose \<^verbatim>\<open>Enabled\<close> is nil is not enabled: \<^verbatim>\<open>IsEnabled\<close> is true
  exactly when the field holds true, so no default is computed. \<^verbatim>\<open>IsAddonEnabled\<close> is
  false for a name that no addon of the list has, and false when the addon the lookup
  finds (the first of that name) has \<^verbatim>\<open>Enabled\<close> unset.
\<close>

theorem IsEnabled_unset_is_false:
  "IsEnabled a = (Enabled a = Some True)
   \<and> (Enabled a = None \<longrightarrow> \<not> IsEnabled a)
   \<and> (find (\<lambda>x. Addon_Name x = n) (Addons k) = None \<longrightarrow> \<not> IsAddonEnabled k n)
   \<and> (\<forall>x. find (\<lambda>x. Addon_Name x = n) (Addons k) = Some x \<and> Enabled x = None
          \<longrightarrow> \<not> IsAddonEnabled k n)"
  by (auto simp: IsEnabled_def IsAddonEnabled_def GetAddonByName_def GetAddonByName_loop_find
      zero_KubernetesAddon_def split: option.splits)

theorem IsEnabled_unset_is_false_witness:
  "Enabled \<lparr>Addon_Name = ''tiller'', Enabled = None, Data = []\<rparr> = None
   \<and> \<not> IsEnabled \<lparr>Addon_Name = ''tiller'', Enabled = None, Data = []\<rparr>
   \<and> find (\<lambda>x. Addon_Name x = ''dashboard'')
        (Addons \<lparr>Addons = [\<lparr>Addon_Name = ''tiller'', Enabled = None, Data = []\<rparr>]\<rparr>) = None
   \<and> \<not> IsAddonEnabled \<lparr>Addons = [\<lparr>Addon_Name = ''tiller'', Enabled = None, Data = []\<rparr>]\<rparr>
        ''dashboard''
   \<and> \<not> IsAddonEnabled \<lparr>Addons = [\<lparr>Addon_Name = ''tiller'', Enabled = None, Data = []\<rparr>]\<rparr>
        ''tiller''"
  using IsEnabled_unset_is_false
    [of "\<lparr>Addon_Name = ''tiller'', Enabled = None, Data = []\<rparr>" "''dashboard''"
        "\<lparr>Addons = [\<lparr>Addon_Name = ''tiller'', Enabled = None, Data = []\<rparr>]\<rparr>"]
    IsEnabled_unset_is_false
    [of "\<lparr>Addon_Name = ''tiller'', Enabled = None, Data = []\<rparr>" "''tiller''"
        "\<lparr>Addons = [\<lparr>Addon_Name = ''tiller'', Enabled = None, Data = []\<rparr>]\<rparr>"]
  by simp

section \<open>Properties of the cluster id\<close>

lemma uitoa_nonempty: "uitoa n \<noteq> []"
  by (subst uitoa.simps) simp

lemma is_digit_digit_char: "d < 10 \<Longrightarrow> is_digit (digit_char d)"
  unfolding is_digit_def digit_char_def by (rule nth_mem) simp

lemma uitoa_digits: "c \<in> set (uitoa n) \<Longrightarrow> is_digit c"
proof (induction n arbitrary: c rule: uitoa.induct)
  case (1 n)
  show ?case
  proof (cases "n < 10")
    case True
    with "1.prems" show ?thesis
      by (subst (asm) uitoa.simps) (simp add: is_digit_digit_char)
  next
    case False
    from "1.prems" have "c \<in> set (uitoa (n div 10) @ [digit_char (n mod 10)])"
      by (subst (asm) uitoa.simps) (simp add: False)
    then have "c \<in> set (uitoa (n div 10)) \<or> c = digit_char (n mod 10)"
      by auto
    then show ?thesis
      using "1.IH" False by (auto simp: is_digit_digit_char)
  qed
qed

lemma length_Sprintf_08d: "8 \<le> length (Sprintf_08d n)"
  by (simp add: Sprintf_08d_def)

lemma is_digit_zero: "is_digit (CHR ''0'')"
  by (simp add: is_digit_def)

lemma Sprintf_08d_digits: "c \<in> set (Sprintf_08d n) \<Longrightarrow> is_digit c"
  by (auto simp: Sprintf_08d_def uitoa_digits is_digit_zero)

lemma length_cluster_id_of: "length (cluster_id_of rnd s) = 8"
  using length_Sprintf_08d [of "unat (rnd (fnv64a_Write fnv_offset64 (bytes_of s)))"]
  by (simp add: cluster_id_of_def)

lemma cluster_id_of_digits: "c \<in> set (cluster_id_of rnd s) \<Longrightarrow> is_digit c"
  unfolding cluster_id_of_def by (blast dest: in_set_takeD Sprintf_08d_digits)

lemma GetClusterID_fresh:
  "ClusterID p = [] \<Longrightarrow>
   GetClusterID rnd p =
     (cluster_id_of rnd (identifying_string p),
      p\<lparr>ClusterID := cluster_id_of rnd (identifying_string p)\<rparr>)"
  by (simp add: GetClusterID_def cluster_id_of_def identifying_string_def New64a_def Sum64_def
      bytes_of_def Let_def split: option.splits list.splits)

lemma GetClusterID_stored:
  "ClusterID p \<noteq> [] \<Longrightarrow> GetClusterID rnd p = (ClusterID p, p)"
  by (simp add: GetClusterID_def)

lemma cluster_id_of_nonempty: "cluster_id_of rnd s \<noteq> []"
  using length_cluster_id_of [of rnd s] by auto

text \<open>
  Claim C4, as amended. On a \<^verbatim>\<open>Properties\<close> whose \<^verbatim>\<open>ClusterID\<close> is empty,
  \<^verbatim>\<open>GetClusterID\<close> returns the id of the identifying string: 8 characters, all decimal
  digits. It stores the id in the field, and the next call returns the same string and
  leaves the \<^verbatim>\<open>Properties\<close> as they are. On a \<^verbatim>\<open>Properties\<close> whose \<^verbatim>\<open>ClusterID\<close> is
  not empty it returns the stored string, whatever that is, and changes nothing.
\<close>

theorem GetClusterID_computed_once_then_stored:
  "(ClusterID p = [] \<longrightarrow>
      fst (GetClusterID rnd p) = cluster_id_of rnd (identifying_string p)
      \<and> length (fst (GetClusterID rnd p)) = 8
      \<and> (\<forall>c \<in> set (fst (GetClusterID rnd p)). is_digit c)
      \<and> snd (GetClusterID rnd p) = p\<lparr>ClusterID := fst (GetClusterID rnd p)\<rparr>
      \<and> GetClusterID rnd (snd (GetClusterID rnd p)) = GetClusterID rnd p)
   \<and> (ClusterID p \<noteq> [] \<longrightarrow> GetClusterID rnd p = (ClusterID p, p))"
proof (intro conjI impI)
  assume e: "ClusterID p = []"
  let ?cid = "cluster_id_of rnd (identifying_string p)"
  have g: "GetClusterID rnd p = (?cid, p\<lparr>ClusterID := ?cid\<rparr>)"
    using e by (rule GetClusterID_fresh)
  show "fst (GetClusterID rnd p) = ?cid" by (simp add: g)
  show "length (fst (GetClusterID rnd p)) = 8" by (simp add: g length_cluster_id_of)
  show "\<forall>c \<in> set (fst (GetClusterID rnd p)). is_digit c"
    by (simp add: g cluster_id_of_digits)
  show "snd (GetClusterID rnd p) = p\<lparr>ClusterID := fst (GetClusterID rnd p)\<rparr>"
    by (simp add: g)
  show "GetClusterID rnd (snd (GetClusterID rnd p)) = GetClusterID rnd p"
    by (simp add: g GetClusterID_stored cluster_id_of_nonempty)
next
  assume "ClusterID p \<noteq> []"
  then show "GetClusterID rnd p = (ClusterID p, p)" by (rule GetClusterID_stored)
qed

lemma replicate_numeral_unfold:
  "replicate (numeral k) c = c # replicate (pred_numeral k) c"
  by (simp add: numeral_eq_Suc)

lemma Sprintf_08d_example: "Sprintf_08d 1234 = ''00001234''"
  by (simp add: Sprintf_08d_def uitoa.simps digit_char_def replicate_numeral_unfold)

lemma fnv64a_a: "fnv64a_Write fnv_offset64 (bytes_of ''a'') = 0xaf63dc4c8601ec8c"
  by code_simp

lemma cluster_id_of_a: "cluster_id_of low_bits ''a'' = ''22482730''"
  by (simp add: cluster_id_of_def fnv64a_a low_bits_def Sprintf_08d_def uitoa.simps
      digit_char_def)

theorem GetClusterID_computed_once_then_stored_witness:
  "ClusterID example_swarm = []
   \<and> fst (GetClusterID low_bits example_swarm) = ''22482730''
   \<and> snd (GetClusterID low_bits example_swarm) = example_swarm\<lparr>ClusterID := ''22482730''\<rparr>
   \<and> GetClusterID low_bits (snd (GetClusterID low_bits example_swarm)) =
       GetClusterID low_bits example_swarm
   \<and> ClusterID example_stored \<noteq> []
   \<and> GetClusterID low_bits example_stored = (''abc'', example_stored)"
proof -
  have e: "ClusterID example_swarm = []" by (simp add: example_swarm_def)
  have i: "identifying_string example_swarm = ''a''"
    by (simp add: identifying_string_def example_swarm_def)
  have s: "ClusterID example_stored = ''abc''" by (simp add: example_stored_def)
  show ?thesis
    using GetClusterID_computed_once_then_stored [of example_swarm low_bits]
      GetClusterID_computed_once_then_stored [of example_stored low_bits]
    by (auto simp: e i s cluster_id_of_a)
qed

text \<open>
  The claim as first stated ("for every Properties instance") fails on a
  \<^verbatim>\<open>Properties\<close> whose field already holds a string: that string is returned as it is.
\<close>

theorem GetClusterID_stored_value_counterexample:
  "fst (GetClusterID low_bits example_stored) = ''abc''
   \<and> length (fst (GetClusterID low_bits example_stored)) \<noteq> 8"
  by (simp add: GetClusterID_def example_stored_def)

section \<open>Properties of the derived names\<close>

lemma name_with_id_Inr:
  "K8sOrchestratorName p = Inr code \<Longrightarrow>
   name_with_id rnd p i s =
     Inr (code @ i @ fst (GetClusterID rnd p) @ s, snd (GetClusterID rnd p))"
  by (simp add: name_with_id_def split: prod.splits)

lemma K8sOrchestratorName_not_Kubernetes:
  "OrchestratorProfile p = Some orch \<Longrightarrow> OrchestratorType orch \<noteq> Kubernetes \<Longrightarrow>
   K8sOrchestratorName p = Inr []"
  by (simp add: K8sOrchestratorName_def IsKubernetes_def)

text \<open>
  Claim C10. When the orchestrator profile is set: for Kubernetes the orchestrator code is
  "aks" with a hosted master and "k8s" without; for every other orchestrator type it is
  the empty string, and then the master VM prefix, the resource prefix, the route table
  name, the NSG name and (off a custom virtual network) the vnet and subnet names start
  with no orchestrator code.
\<close>

theorem K8sOrchestratorName_by_orchestrator_type:
  assumes "OrchestratorProfile p = Some orch"
  shows "(OrchestratorType orch = Kubernetes \<and> HostedMasterProfile p \<noteq> None \<longrightarrow>
            K8sOrchestratorName p = Inr ''aks'')
       \<and> (OrchestratorType orch = Kubernetes \<and> HostedMasterProfile p = None \<longrightarrow>
            K8sOrchestratorName p = Inr ''k8s'')
       \<and> (OrchestratorType orch \<noteq> Kubernetes \<longrightarrow>
            K8sOrchestratorName p = Inr []
          \<and> GetMasterVMPrefix rnd p =
              Inr (''-master-'' @ fst (GetClusterID rnd p) @ ''-'', snd (GetClusterID rnd p))
          \<and> GetResourcePrefix rnd p =
              Inr ((if IsHostedMasterProfile p then ''-agentpool-'' else ''-master-'')
                     @ fst (GetClusterID rnd p) @ ''-'', snd (GetClusterID rnd p))
          \<and> GetRouteTableName rnd p =
              Inr ((if IsHostedMasterProfile p then ''-agentpool-'' else ''-master-'')
                     @ fst (GetClusterID rnd p) @ ''-routetable'', snd (GetClusterID rnd p))
          \<and> GetNSGName rnd p =
              Inr ((if IsHostedMasterProfile p then ''-agentpool-'' else ''-master-'')
                     @ fst (GetClusterID rnd p) @ ''-nsg'', snd (GetClusterID rnd p))
          \<and> ((IsHostedMasterProfile p \<and> \<not> AreAgentProfilesCustomVNET p)
              \<or> (\<not> IsHostedMasterProfile p
                  \<and> (\<exists>m. MasterProfile p = Some m \<and> \<not> Master_IsCustomVNET m)) \<longrightarrow>
                GetVirtualNetworkName rnd p =
                  Inr (''-vnet-'' @ fst (GetClusterID rnd p), snd (GetClusterID rnd p))
              \<and> GetSubnetName p = Inr ''-subnet''))"
proof (intro conjI impI)
  assume "OrchestratorType orch = Kubernetes \<and> HostedMasterProfile p \<noteq> None"
  then show "K8sOrchestratorName p = Inr ''aks''"
    using assms
    by (auto simp: K8sOrchestratorName_def IsKubernetes_def DefaultHostedProfileMasterName_def)
next
  assume "OrchestratorType orch = Kubernetes \<and> HostedMasterProfile p = None"
  then show "K8sOrchestratorName p = Inr ''k8s''"
    using assms
    by (auto simp: K8sOrchestratorName_def IsKubernetes_def DefaultOrchestratorName_def)
next
  assume nk: "OrchestratorType orch \<noteq> Kubernetes"
  have k: "K8sOrchestratorName p = Inr []"
    using assms nk by (rule K8sOrchestratorName_not_Kubernetes)
  note n = name_with_id_Inr [OF k]
  show "K8sOrchestratorName p = Inr []" by (rule k)
  show "GetMasterVMPrefix rnd p =
      Inr (''-master-'' @ fst (GetClusterID rnd p) @ ''-'', snd (GetClusterID rnd p))"
    by (simp add: GetMasterVMPrefix_def n)
  show rp: "GetResourcePrefix rnd p =
      Inr ((if IsHostedMasterProfile p then ''-agentpool-'' else ''-master-'')
             @ fst (GetClusterID rnd p) @ ''-'', snd (GetClusterID rnd p))"
    by (simp add: GetResourcePrefix_def n)
  show "GetRouteTableName rnd p =
      Inr ((if IsHostedMasterProfile p then ''-agentpool-'' else ''-master-'')
             @ fst (GetClusterID rnd p) @ ''-routetable'', snd (GetClusterID rnd p))"
    by (simp add: GetRouteTableName_def rp)
  show "GetNSGName rnd p =
      Inr ((if IsHostedMasterProfile p then ''-agentpool-'' else ''-master-'')
             @ fst (GetClusterID rnd p) @ ''-nsg'', snd (GetClusterID rnd p))"
    by (simp add: GetNSGName_def rp)
  assume d: "(IsHostedMasterProfile p \<and> \<not> AreAgentProfilesCustomVNET p)
       \<or> (\<not> IsHostedMasterProfile p
           \<and> (\<exists>m. MasterProfile p = Some m \<and> \<not> Master_IsCustomVNET m))"
  then show "GetVirtualNetworkName rnd p =
      Inr (''-vnet-'' @ fst (GetClusterID rnd p), snd (GetClusterID rnd p))"
    by (auto simp: GetVirtualNetworkName_def n)
  from d show "GetSubnetName p = Inr ''-subnet''"
    by (auto simp: GetSubnetName_def k)
qed

lemma GetClusterID_example_swarm:
  "GetClusterID low_bits example_swarm =
     (''22482730'', example_swarm\<lparr>ClusterID := ''22482730''\<rparr>)"
proof -
  have "ClusterID example_swarm = []" by (simp add: example_swarm_def)
  moreover have "identifying_string example_swarm = ''a''"
    by (simp add: identifying_string_def example_swarm_def)
  ultimately show ?thesis by (simp add: GetClusterID_fresh cluster_id_of_a)
qed

theorem K8sOrchestratorName_by_orchestrator_type_witness:
  "OrchestratorProfile example_swarm =
     Some \<lparr>OrchestratorType = ''Swarm'', OrchestratorVersion = []\<rparr>
   \<and> K8sOrchestratorName example_swarm = Inr []
   \<and> GetMasterVMPrefix low_bits example_swarm =
       Inr (''-master-22482730-'', example_swarm\<lparr>ClusterID := ''22482730''\<rparr>)
   \<and> GetNSGName low_bits example_swarm =
       Inr (''-master-22482730-nsg'', example_swarm\<lparr>ClusterID := ''22482730''\<rparr>)
   \<and> GetRouteTableName low_bits example_swarm =
       Inr (''-master-22482730-routetable'', example_swarm\<lparr>ClusterID := ''22482730''\<rparr>)
   \<and> GetVirtualNetworkName low_bits example_swarm =
       Inr (''-vnet-22482730'', example_swarm\<lparr>ClusterID := ''22482730''\<rparr>)
   \<and> GetSubnetName example_swarm = Inr ''-subnet''"
proof -
  have o: "OrchestratorProfile example_swarm =
      Some \<lparr>OrchestratorType = ''Swarm'', OrchestratorVersion = []\<rparr>"
    by (simp add: example_swarm_def)
  have h: "\<not> IsHostedMasterProfile example_swarm"
    by (simp add: IsHostedMasterProfile_def example_swarm_def)
  have m: "\<exists>m. MasterProfile example_swarm = Some m \<and> \<not> Master_IsCustomVNET m"
    by (simp add: example_swarm_def Master_IsCustomVNET_def)
  show ?thesis
    using K8sOrchestratorName_by_orchestrator_type [OF o, of low_bits] h m
    by (simp add: o Kubernetes_def GetClusterID_example_swarm)
qed

section \<open>Properties of the custom virtual network names\<close>

lemma first_pool_segment_Cons:
  "pools p = a # rest \<Longrightarrow>
   first_pool_segment p i = index_at (Split_slash (AgentPool_VnetSubnetID a)) i"
  by (simp add: first_pool_segment_def index_at_def)

text \<open>
  Claim C7. On a custom virtual network the three names are segments of the subnet
  resource id split at the slashes: the resource group is segment 4, the virtual network
  segment 8 and the subnet segment 10. The id is that of the first agent pool for a
  hosted master and that of the master profile otherwise. Where the id has no such
  segment the index expression panics.
\<close>

theorem custom_vnet_names_by_segment_index:
  assumes "(IsHostedMasterProfile p \<and> AreAgentProfilesCustomVNET p
              \<and> pools p = a # rest \<and> vnetSubnetID = AgentPool_VnetSubnetID a)
         \<or> (\<not> IsHostedMasterProfile p \<and> MasterProfile p = Some m
              \<and> Master_IsCustomVNET m \<and> vnetSubnetID = Master_VnetSubnetID m)"
    and "segments = Split_slash vnetSubnetID"
  shows "GetVNetResourceGroupName p =
           (if 4 < length segments then Inr (segments ! 4) else Inl IndexOutOfRange)
       \<and> GetVirtualNetworkName rnd p =
           (if 8 < length segments then Inr (segments ! 8, p) else Inl IndexOutOfRange)
       \<and> GetSubnetName p =
           (if 10 < length segments then Inr (segments ! 10) else Inl IndexOutOfRange)"
  using assms
  by (auto simp: GetVNetResourceGroupName_def GetVirtualNetworkName_def GetSubnetName_def
      first_pool_segment_Cons index_at_def DefaultVnetResourceGroupSegmentIndex_def
      DefaultVnetNameResourceSegmentIndex_def DefaultSubnetNameResourceSegmentIndex_def)

lemma Split_slash_example:
  "Split_slash example_subnet_id =
     [[], ''subscriptions'', ''sub1'', ''resourceGroups'', ''rg1'', ''providers'',
      ''Microsoft.Network'', ''virtualNetworks'', ''vnet1'', ''subnets'', ''subnet1'']"
  by (simp add: Split_slash_def example_subnet_id_def)

theorem custom_vnet_names_by_segment_index_witness:
  "\<not> IsHostedMasterProfile example_selfhosted
   \<and> MasterProfile example_selfhosted = Some example_master
   \<and> Master_IsCustomVNET example_master
   \<and> GetVNetResourceGroupName example_selfhosted = Inr ''rg1''
   \<and> GetVirtualNetworkName low_bits example_selfhosted = Inr (''vnet1'', example_selfhosted)
   \<and> GetSubnetName example_selfhosted = Inr ''subnet1''
   \<and> IsHostedMasterProfile example_hosted
   \<and> AreAgentProfilesCustomVNET example_hosted
   \<and> pools example_hosted = [example_pool]
   \<and> GetVNetResourceGroupName example_hosted = Inr ''rg1''
   \<and> GetVirtualNetworkName low_bits example_hosted = Inr (''vnet1'', example_hosted)
   \<and> GetSubnetName example_hosted = Inr ''subnet1''"
proof -
  have h: "\<not> IsHostedMasterProfile example_selfhosted"
    by (simp add: IsHostedMasterProfile_def example_selfhosted_def)
  have m: "MasterProfile example_selfhosted = Some example_master"
    by (simp add: example_selfhosted_def)
  have c: "Master_IsCustomVNET example_master"
    by (simp add: Master_IsCustomVNET_def example_master_def example_subnet_id_def)
  have i: "Master_VnetSubnetID example_master = example_subnet_id"
    by (simp add: example_master_def)
  have h': "IsHostedMasterProfile example_hosted"
    by (simp add: IsHostedMasterProfile_def example_hosted_def)
  have p': "pools example_hosted = [example_pool]"
    by (simp add: pools_def example_hosted_def)
  have c': "AreAgentProfilesCustomVNET example_hosted"
    by (simp add: AreAgentProfilesCustomVNET_def example_hosted_def AgentPool_IsCustomVNET_def
        example_pool_def example_subnet_id_def)
  have i': "AgentPool_VnetSubnetID example_pool = example_subnet_id"
    by (simp add: example_pool_def)
  show ?thesis
    using custom_vnet_names_by_segment_index
        [of example_selfhosted example_pool "[]" example_subnet_id example_master
            "Split_slash example_subnet_id" low_bits]
      custom_vnet_names_by_segment_index
        [of example_hosted example_pool "[]" example_subnet_id example_master
            "Split_slash example_subnet_id" low_bits]
    by (simp add: h m c i h' p' c' i' Split_slash_example)
qed

text \<open>
  Outside the theorem: a hosted master with an empty, non-nil list of agent pools counts
  as a custom virtual network for \<^verbatim>\<open>AreAgentProfilesCustomVNET\<close>, and the index 0 of the
  pools panics; without a hosted master and without a master profile the methods
  dereference nil.
\<close>

lemma hosted_without_pools_panics:
  assumes "IsHostedMasterProfile p" and "AgentPoolProfiles p = Some []"
  shows "GetVNetResourceGroupName p = Inl IndexOutOfRange
       \<and> GetVirtualNetworkName rnd p = Inl IndexOutOfRange
       \<and> GetSubnetName p = Inl IndexOutOfRange"
  using assms
  by (simp add: GetVNetResourceGroupName_def GetVirtualNetworkName_def GetSubnetName_def
      AreAgentProfilesCustomVNET_def first_pool_segment_def index_at_def pools_def)

lemma no_master_no_hosted_master_panics:
  assumes "\<not> IsHostedMasterProfile p" and "MasterProfile p = None"
  shows "GetVNetResourceGroupName p = Inl NilDereference
       \<and> GetVirtualNetworkName rnd p = Inl NilDereference
       \<and> GetSubnetName p = Inl NilDereference"
  using assms
  by (simp add: GetVNetResourceGroupName_def GetVirtualNetworkName_def GetSubnetName_def)

section \<open>Properties of the first static IP address\<close>

lemma fill_loop_result:
  "0 \<le> i \<Longrightarrow> lastOctet \<le> int (length ip) \<Longrightarrow>
   \<exists>ip'. fill_loop i lastOctet ip = Inr ip' \<and> length ip' = length ip \<and>
     (\<forall>k. k < length ip \<longrightarrow>
        ip' ! k = (if i \<le> int k \<and> int k < lastOctet then 255 else ip ! k))"
proof (induction i lastOctet ip rule: fill_loop.induct)
  case (1 i lastOctet ip)
  show ?case
  proof (cases "i < lastOctet")
    case False
    then show ?thesis by (subst fill_loop.simps) auto
  next
    case True
    let ?ip1 = "ip[nat i := 255]"
    have s: "set_index ip i 255 = Inr ?ip1"
      using True 1(2,3) by (simp add: set_index_def)
    have "\<exists>ip'. fill_loop (i + 1) lastOctet ?ip1 = Inr ip' \<and> length ip' = length ?ip1 \<and>
       (\<forall>k. k < length ?ip1 \<longrightarrow>
          ip' ! k = (if i + 1 \<le> int k \<and> int k < lastOctet then 255 else ?ip1 ! k))"
      using 1(1) [OF True s] 1(2,3) by simp
    then obtain ip' where r: "fill_loop (i + 1) lastOctet ?ip1 = Inr ip'"
      and l: "length ip' = length ip"
      and n: "\<And>k. k < length ip \<Longrightarrow>
          ip' ! k = (if i + 1 \<le> int k \<and> int k < lastOctet then 255 else ?ip1 ! k)"
      by auto
    have f: "fill_loop i lastOctet ip = Inr ip'"
      using True s r by (subst fill_loop.simps) simp
    have "\<And>k. k < length ip \<Longrightarrow>
        ip' ! k = (if i \<le> int k \<and> int k < lastOctet then 255 else ip ! k)"
    proof -
      fix k assume k: "k < length ip"
      show "ip' ! k = (if i \<le> int k \<and> int k < lastOctet then 255 else ip ! k)"
      proof (cases "int k = i")
        case True
        then have "nat i = k" by simp
        then show ?thesis using n [OF k] k True \<open>i < lastOctet\<close> by simp
      next
        case False
        then have "nat i \<noteq> k" using 1(2) by auto
        then show ?thesis using n [OF k] False by auto
      qed
    qed
    with f l show ?thesis by blast
  qed
qed

lemma static_ip_vmss:
  assumes "IPMask_Size (IPNet_Mask subnet) = (ones, bits)"
    and "bits = 8 * int (length (IPNet_IP subnet))"
    and "IPNet_IP subnet \<noteq> []"
  shows "static_ip_of_subnet True subnet =
    Inr ((IPNet_IP subnet)[length (IPNet_IP subnet) - 1 := 4])"
proof -
  have "nat (int (length (IPNet_IP subnet)) - 1) = length (IPNet_IP subnet) - 1"
    by simp
  moreover have "0 < length (IPNet_IP subnet)" using assms(3) by simp
  ultimately show ?thesis
    using assms(1,2)
    by (simp add: static_ip_of_subnet_def set_index_def
        DefaultKubernetesFirstConsecutiveStaticIPOffsetVMSS_def)
qed

lemma static_ip_non_vmss:
  assumes sz: "IPMask_Size (IPNet_Mask subnet) = (ones, bits)"
    and b: "bits = 8 * int (length (IPNet_IP subnet))"
    and o: "0 \<le> ones" "ones < bits"
  shows "\<exists>ip'. static_ip_of_subnet False subnet = Inr ip'
      \<and> length ip' = length (IPNet_IP subnet)
      \<and> (\<forall>k. k < length (IPNet_IP subnet) \<longrightarrow>
            ip' ! k =
              (if k = length (IPNet_IP subnet) - 1 then 5
               else if int k < ones div 8 then IPNet_IP subnet ! k
               else if int k = ones div 8 then IPNet_IP subnet ! k OR mask (nat (8 - ones mod 8))
               else 255))"
proof -
  let ?ip = "IPNet_IP subnet"
  let ?f = "ones div 8"
  let ?l = "int (length ?ip) - 1"
  let ?h = "push_bit (nat (8 - ones mod 8)) (1 :: byte) - 1"
  let ?ip1 = "?ip[nat ?f := ?ip ! nat ?f OR ?h]"
  have f0: "0 \<le> ?f" using o(1) by simp
  have fl: "?f \<le> ?l" using o b by simp
  have len: "0 < length ?ip" using o b by auto
  have bl: "bits div 8 - 1 = ?l" using b by simp
  have or1: "or_index ?ip ?f ?h = Inr ?ip1"
    using f0 fl by (simp add: or_index_def)
  have "\<exists>ip2. fill_loop (?f + 1) ?l ?ip1 = Inr ip2 \<and> length ip2 = length ?ip1 \<and>
     (\<forall>k. k < length ?ip1 \<longrightarrow>
        ip2 ! k = (if ?f + 1 \<le> int k \<and> int k < ?l then 255 else ?ip1 ! k))"
    using f0 by (intro fill_loop_result) simp_all
  then obtain ip2 where fi: "fill_loop (?f + 1) ?l ?ip1 = Inr ip2"
    and l2: "length ip2 = length ?ip"
    and n2: "\<And>k. k < length ?ip \<Longrightarrow>
        ip2 ! k = (if ?f + 1 \<le> int k \<and> int k < ?l then 255 else ?ip1 ! k)"
    by auto
  let ?ip3 = "ip2[nat ?l := 5]"
  have s3: "set_index ip2 ?l 5 = Inr ?ip3"
    using len l2 by (simp add: set_index_def)
  have r: "static_ip_of_subnet False subnet = Inr ?ip3"
    using sz or1 fi s3 bl
    by (simp add: static_ip_of_subnet_def DefaultKubernetesFirstConsecutiveStaticIPOffset_def)
  have nl: "nat ?l = length ?ip - 1" by simp
  have "\<And>k. k < length ?ip \<Longrightarrow>
      ?ip3 ! k =
        (if k = length ?ip - 1 then 5
         else if int k < ?f then ?ip ! k
         else if int k = ?f then ?ip ! k OR mask (nat (8 - ones mod 8))
         else 255)"
  proof -
    fix k assume k: "k < length ?ip"
    show "?ip3 ! k =
        (if k = length ?ip - 1 then 5
         else if int k < ?f then ?ip ! k
         else if int k = ?f then ?ip ! k OR mask (nat (8 - ones mod 8))
         else 255)"
    proof (cases "k = length ?ip - 1")
      case True
      then show ?thesis using k l2 nl by simp
    next
      case False
      then have kl: "int k < ?l" using k by auto
      have "?ip3 ! k = ip2 ! k" using False nl by simp
      also have "\<dots> = (if ?f + 1 \<le> int k then 255 else ?ip1 ! k)"
        using n2 [OF k] kl by simp
      finally have e: "?ip3 ! k = (if ?f + 1 \<le> int k then 255 else ?ip1 ! k)" .
      show ?thesis
      proof (cases "int k < ?f")
        case True
        then have "nat ?f \<noteq> k" by auto
        then show ?thesis using e True False by simp
      next
        case nlt: False
        show ?thesis
        proof (cases "int k = ?f")
          case True
          then have "nat ?f = k" by auto
          then show ?thesis using e True False k by (simp add: mask_eq_exp_minus_1)
        next
          case neq: False
          then have "?f + 1 \<le> int k" using nlt by simp
          then show ?thesis using e nlt neq False by simp
        qed
      qed
    qed
  qed
  with r l2 show ?thesis by (intro exI [of _ ?ip3]) simp
qed

lemma static_ip_full_prefix_panics:
  assumes "IPMask_Size (IPNet_Mask subnet) = (ones, bits)"
    and "bits = 8 * int (length (IPNet_IP subnet))"
    and "ones = bits"
  shows "static_ip_of_subnet False subnet = Inl IndexOutOfRange"
  using assms by (simp add: static_ip_of_subnet_def or_index_def)

lemma length_CIDRMask_loop: "length (CIDRMask_loop l n) = l"
  by (induction l arbitrary: n) auto

lemma all_zero_CIDRMask_loop: "all_zero_from (CIDRMask_loop l 0)"
  by (induction l) auto

lemma leading_ones_partial_byte_upt:
  "\<forall>n \<in> set [0 ..< 8].
     leading_ones acc (NOT (drop_bit n (0xff :: byte))) = (acc + int n, 0)
     \<and> NOT (drop_bit n (0xff :: byte)) \<noteq> 0xff"
  by (simp add: upt_rec [of 0] upt_rec [of "Suc _"] upt_rec [of "numeral _"] leading_ones.simps)

lemma leading_ones_partial_byte:
  assumes "n < 8"
  shows "leading_ones acc (NOT (drop_bit n (0xff :: byte))) = (acc + int n, 0)
       \<and> NOT (drop_bit n (0xff :: byte)) \<noteq> 0xff"
  using assms leading_ones_partial_byte_upt [of acc] by simp

lemma simpleMaskLength_loop_CIDRMask_loop:
  "n \<le> 8 * l \<Longrightarrow> simpleMaskLength_loop acc (CIDRMask_loop l n) = acc + int n"
proof (induction l arbitrary: n acc)
  case 0
  then show ?case by simp
next
  case (Suc l)
  show ?case
  proof (cases "n \<ge> 8")
    case True
    then have "n - 8 \<le> 8 * l" using Suc.prems by simp
    then have "simpleMaskLength_loop (acc + 8) (CIDRMask_loop l (n - 8)) = acc + 8 + int (n - 8)"
      by (rule Suc.IH)
    then show ?thesis using True by simp
  next
    case False
    then have "n < 8" by simp
    then show ?thesis
      using leading_ones_partial_byte [of n acc] all_zero_CIDRMask_loop [of l] by simp
  qed
qed

lemma IPMask_Size_CIDRMask:
  assumes "bits = 32 \<or> bits = 128" and "n \<le> bits"
  shows "IPMask_Size (CIDRMask n bits) = (int n, int bits)"
proof -
  have c: "CIDRMask n bits = CIDRMask_loop (bits div 8) n"
    using assms by (auto simp: CIDRMask_def IPv4len_def IPv6len_def)
  have "n \<le> 8 * (bits div 8)" using assms by auto
  then have "simpleMaskLength (CIDRMask n bits) = int n"
    using c by (simp add: simpleMaskLength_def simpleMaskLength_loop_CIDRMask_loop)
  moreover have "int (length (CIDRMask n bits)) * 8 = int bits"
    using assms(1) c by (auto simp: length_CIDRMask_loop)
  ultimately show ?thesis by (simp add: IPMask_Size_def)
qed

lemma length_CIDRMask:
  "bits = 32 \<or> bits = 128 \<Longrightarrow> n \<le> bits \<Longrightarrow> length (CIDRMask n bits) = bits div 8"
  by (auto simp: CIDRMask_def IPv4len_def IPv6len_def length_CIDRMask_loop)

lemma parseIPv4_shape: "parseIPv4 a = Some ip \<Longrightarrow> \<exists>b c d e. ip = IPv4 b c d e"
  by (auto simp: parseIPv4_def split: option.splits prod.splits if_splits)

lemma length_IP_Mask_IPv4:
  "length msk = 4 \<Longrightarrow> length (IP_Mask (IPv4 b c d e) msk) = 4"
  by (simp add: IP_Mask_def IPv4_def v4InV6Prefix_def IPv4len_def IPv6len_def)

lemma length_IP_Mask_16:
  "length ip = 16 \<Longrightarrow> length msk = 16 \<Longrightarrow> length (IP_Mask ip msk) = 16"
  by (simp add: IP_Mask_def IPv4len_def IPv6len_def)

lemma ParseCIDR_subnet:
  assumes p: "ParseCIDR pv6 s = Some (ip0, subnet)"
    and v6: "\<forall>a ip. pv6 a = Some ip \<longrightarrow> length ip = 16"
  shows "\<exists>n bits. (bits = 32 \<or> bits = 128) \<and> n \<le> bits
      \<and> IPNet_Mask subnet = CIDRMask n bits
      \<and> IPMask_Size (IPNet_Mask subnet) = (int n, int bits)
      \<and> length (IPNet_IP subnet) = bits div 8"
proof -
  from p obtain i where i: "IndexByteString s (CHR ''/'') = Some i"
    by (auto simp: ParseCIDR_def split: option.splits)
  obtain n j ok where d: "dtoi (drop (i + 1) s) = (n, j, ok)"
    by (cases "dtoi (drop (i + 1) s)") auto
  show ?thesis
  proof (cases "parseIPv4 (take i s)")
    case (Some ip4)
    then obtain b c e f where ip4: "ip4 = IPv4 b c e f"
      using parseIPv4_shape by blast
    from p i d Some have n: "n \<le> 32"
      and sn: "subnet = \<lparr>IPNet_IP = IP_Mask ip4 (CIDRMask n 32), IPNet_Mask = CIDRMask n 32\<rparr>"
      by (auto simp: ParseCIDR_def IPv4len_def split: if_splits)
    have lm: "length (CIDRMask n 32) = 4" using n by (simp add: length_CIDRMask)
    have "length (IPNet_IP subnet) = 4"
      using sn ip4 lm by (simp add: length_IP_Mask_IPv4)
    moreover have "IPMask_Size (IPNet_Mask subnet) = (int n, 32)"
      using sn n IPMask_Size_CIDRMask [of 32 n] by simp
    ultimately show ?thesis using n sn
      by (intro exI [of _ n] exI [of _ 32]) simp
  next
    case None
    from p i d None obtain ip6 where ip6: "pv6 (take i s) = Some ip6" and n: "n \<le> 128"
      and sn: "subnet = \<lparr>IPNet_IP = IP_Mask ip6 (CIDRMask n 128), IPNet_Mask = CIDRMask n 128\<rparr>"
      by (auto simp: ParseCIDR_def IPv6len_def split: if_splits option.splits)
    have lm: "length (CIDRMask n 128) = 16" using n by (simp add: length_CIDRMask)
    have "length (IPNet_IP subnet) = 16"
      using sn v6 ip6 lm by (simp add: length_IP_Mask_16)
    moreover have "IPMask_Size (IPNet_Mask subnet) = (int n, 128)"
      using sn n IPMask_Size_CIDRMask [of 128 n] by simp
    ultimately show ?thesis using n sn
      by (intro exI [of _ n] exI [of _ 128]) simp
  qed
qed

text \<open>
  What the method returns on every string that parses, octet by octet. With a virtual
  machine scale set only the last octet changes, to 4. Otherwise, for a prefix shorter
  than the address, the octets before the end of the prefix stay, the octet that holds the
  end of the prefix gets its host bits set, the octets after it are 255 and the last
  octet is 5; for a prefix as long as the address (/32, /128) the index
  \<^verbatim>\<open>subnet.IP[firstOctet]\<close> is out of range.
\<close>

theorem GetFirstConsecutiveStaticIPAddress_octets:
  assumes p: "ParseCIDR pv6 s = Some (ip0, subnet)"
    and v6: "\<forall>a ip. pv6 a = Some ip \<longrightarrow> length ip = 16"
    and sz: "IPMask_Size (IPNet_Mask subnet) = (ones, bits)"
  shows "(Master_IsVirtualMachineScaleSets m \<longrightarrow>
            GetFirstConsecutiveStaticIPAddress pv6 f6 m s =
              Inr (IP_String f6 ((IPNet_IP subnet)[length (IPNet_IP subnet) - 1 := 4])))
       \<and> (\<not> Master_IsVirtualMachineScaleSets m \<and> ones < bits \<longrightarrow>
            (\<exists>ip'. GetFirstConsecutiveStaticIPAddress pv6 f6 m s = Inr (IP_String f6 ip')
               \<and> length ip' = length (IPNet_IP subnet)
               \<and> (\<forall>k. k < length (IPNet_IP subnet) \<longrightarrow>
                     ip' ! k =
                       (if k = length (IPNet_IP subnet) - 1 then 5
                        else if int k < ones div 8 then IPNet_IP subnet ! k
                        else if int k = ones div 8
                          then IPNet_IP subnet ! k OR mask (nat (8 - ones mod 8))
                        else 255))))
       \<and> (\<not> Master_IsVirtualMachineScaleSets m \<and> ones = bits \<longrightarrow>
            GetFirstConsecutiveStaticIPAddress pv6 f6 m s = Inl IndexOutOfRange)"
proof -
  from ParseCIDR_subnet [OF p v6] sz
  obtain n nbits where nb: "nbits = 32 \<or> nbits = 128" and o: "ones = int n" "bits = int nbits"
    and l: "length (IPNet_IP subnet) = nbits div 8"
    by auto
  have b: "bits = 8 * int (length (IPNet_IP subnet))" using nb o l by auto
  have ne: "IPNet_IP subnet \<noteq> []" using nb l by auto
  have o0: "0 \<le> ones" using o by simp
  show ?thesis
  proof (intro conjI impI)
    assume "Master_IsVirtualMachineScaleSets m"
    then show "GetFirstConsecutiveStaticIPAddress pv6 f6 m s =
        Inr (IP_String f6 ((IPNet_IP subnet)[length (IPNet_IP subnet) - 1 := 4]))"
      using p static_ip_vmss [OF sz b ne]
      by (simp add: GetFirstConsecutiveStaticIPAddress_def)
  next
    assume a: "\<not> Master_IsVirtualMachineScaleSets m \<and> ones < bits"
    then have lt: "ones < bits" by simp
    from static_ip_non_vmss [OF sz b o0 lt]
    obtain ip' where r: "static_ip_of_subnet False subnet = Inr ip'"
      and rest: "length ip' = length (IPNet_IP subnet)
        \<and> (\<forall>k. k < length (IPNet_IP subnet) \<longrightarrow>
              ip' ! k =
                (if k = length (IPNet_IP subnet) - 1 then 5
                 else if int k < ones div 8 then IPNet_IP subnet ! k
                 else if int k = ones div 8
                   then IPNet_IP subnet ! k OR mask (nat (8 - ones mod 8))
                 else 255))"
      by blast
    have "GetFirstConsecutiveStaticIPAddress pv6 f6 m s = Inr (IP_String f6 ip')"
      using a p r by (simp add: GetFirstConsecutiveStaticIPAddress_def)
    with rest show "\<exists>ip'. GetFirstConsecutiveStaticIPAddress pv6 f6 m s = Inr (IP_String f6 ip')
        \<and> length ip' = length (IPNet_IP subnet)
        \<and> (\<forall>k. k < length (IPNet_IP subnet) \<longrightarrow>
              ip' ! k =
                (if k = length (IPNet_IP subnet) - 1 then 5
                 else if int k < ones div 8 then IPNet_IP subnet ! k
                 else if int k = ones div 8
                   then IPNet_IP subnet ! k OR mask (nat (8 - ones mod 8))
                 else 255))"
      by blast
  next
    assume a: "\<not> Master_IsVirtualMachineScaleSets m \<and> ones = bits"
    then show "GetFirstConsecutiveStaticIPAddress pv6 f6 m s = Inl IndexOutOfRange"
      using p static_ip_full_prefix_panics [OF sz b]
      by (simp add: GetFirstConsecutiveStaticIPAddress_def)
  qed
qed

lemma CIDRMask_loop_numeral:
  "CIDRMask_loop (numeral k) n =
     (if n \<ge> 8 then 0xff # CIDRMask_loop (pred_numeral k) (n - 8)
      else NOT (drop_bit n 0xff) # CIDRMask_loop (pred_numeral k) 0)"
  by (simp add: numeral_eq_Suc)

lemmas net_eval =
  ParseCIDR_def parseIPv4_def parseIPv4_loop.simps dtoi_def is_digit_def digit_val_def big_def
  IPv4len_def IPv6len_def IPv4_def v4InV6Prefix_def IP_Mask_def allFF_def CIDRMask_def
  CIDRMask_loop_numeral

lemma ParseCIDR_example_16:
  "ParseCIDR pv6 ''10.240.0.0/16'' =
     Some ([0, 0, 0, 0, 0, 0, 0, 0, 0, 0, 255, 255, 10, 240, 0, 0],
           \<lparr>IPNet_IP = [10, 240, 0, 0], IPNet_Mask = [255, 255, 0, 0]\<rparr>)"
  by (simp add: net_eval cong: prod.case_cong_weak)

lemma ParseCIDR_example_32:
  "ParseCIDR pv6 ''10.240.0.0/32'' =
     Some ([0, 0, 0, 0, 0, 0, 0, 0, 0, 0, 255, 255, 10, 240, 0, 0],
           \<lparr>IPNet_IP = [10, 240, 0, 0], IPNet_Mask = [255, 255, 255, 255]\<rparr>)"
  by (simp add: net_eval cong: prod.case_cong_weak)

lemma ParseCIDR_not_a_cidr: "ParseCIDR pv6 ''not-a-cidr'' = None"
  by (simp add: ParseCIDR_def)

lemmas static_eval =
  static_ip_of_subnet_def IPMask_Size_def simpleMaskLength_def leading_ones.simps
  or_index_def set_index_def fill_loop.simps
  DefaultKubernetesFirstConsecutiveStaticIPOffset_def
  DefaultKubernetesFirstConsecutiveStaticIPOffsetVMSS_def

lemmas string_eval = IP_String_def IP_To4_def IPv4len_def uitoa.simps digit_char_def

text \<open>The two examples of the specification.\<close>

lemma GetFirstConsecutiveStaticIPAddress_example_16:
  "GetFirstConsecutiveStaticIPAddress pv6 f6 m ''10.240.0.0/16'' =
     (if Master_IsVirtualMachineScaleSets m then Inr ''10.240.0.4'' else Inr ''10.240.255.5'')"
  by (simp add: GetFirstConsecutiveStaticIPAddress_def ParseCIDR_example_16 static_eval
      string_eval)

text \<open>A prefix that ends inside an octet: the host bits of that octet are set.\<close>

lemma ParseCIDR_example_12:
  "ParseCIDR pv6 ''10.16.0.0/12'' =
     Some ([0, 0, 0, 0, 0, 0, 0, 0, 0, 0, 255, 255, 10, 16, 0, 0],
           \<lparr>IPNet_IP = [10, 16, 0, 0], IPNet_Mask = [255, 240, 0, 0]\<rparr>)"
  by (simp add: net_eval cong: prod.case_cong_weak)

lemma GetFirstConsecutiveStaticIPAddress_example_12:
  "GetFirstConsecutiveStaticIPAddress pv6 f6 m ''10.16.0.0/12'' =
     (if Master_IsVirtualMachineScaleSets m then Inr ''10.16.0.4'' else Inr ''10.31.255.5'')"
  by (simp add: GetFirstConsecutiveStaticIPAddress_def ParseCIDR_example_12 static_eval
      string_eval)

text \<open>
  Claim C2 at the subnet "10.240.0.0/32" with an availability-set master: the CIDR is
  valid, and the method does not return an address whose last octet is 5; it panics.
\<close>

theorem GetFirstConsecutiveStaticIPAddress_panics_on_full_prefix:
  "GetFirstConsecutiveStaticIPAddress pv6 f6 example_master ''10.240.0.0/32'' =
     Inl IndexOutOfRange"
  by (simp add: GetFirstConsecutiveStaticIPAddress_def ParseCIDR_example_32 static_eval
      Master_IsVirtualMachineScaleSets_def example_master_def VirtualMachineScaleSets_def)

lemma IndexByteString_None: "c \<notin> set s \<Longrightarrow> IndexByteString s c = None"
  by (induction s) auto

text \<open>
  Claim C3. On every string that \<^verbatim>\<open>net.ParseCIDR\<close> rejects, in particular on every
  string without a slash, the method returns the default address "10.240.255.5" and
  does not fail, whatever the availability profile of the master is.
\<close>

theorem GetFirstConsecutiveStaticIPAddress_default_on_parse_error:
  "(ParseCIDR pv6 subnetStr = None \<longrightarrow>
      GetFirstConsecutiveStaticIPAddress pv6 f6 m subnetStr = Inr ''10.240.255.5'')
   \<and> (CHR ''/'' \<notin> set subnetStr \<longrightarrow>
      GetFirstConsecutiveStaticIPAddress pv6 f6 m subnetStr = Inr ''10.240.255.5'')"
  by (simp add: GetFirstConsecutiveStaticIPAddress_def ParseCIDR_def IndexByteString_None
      DefaultFirstConsecutiveKubernetesStaticIP_def)

theorem GetFirstConsecutiveStaticIPAddress_default_on_parse_error_witness:
  "ParseCIDR no_parseIPv6 ''not-a-cidr'' = None
   \<and> CHR ''/'' \<notin> set ''not-a-cidr''
   \<and> GetFirstConsecutiveStaticIPAddress no_parseIPv6 no_ipv6String example_master
         ''not-a-cidr'' = Inr ''10.240.255.5''
   \<and> GetFirstConsecutiveStaticIPAddress no_parseIPv6 no_ipv6String example_master_vmss
         ''not-a-cidr'' = Inr ''10.240.255.5''"
  using GetFirstConsecutiveStaticIPAddress_default_on_parse_error
      [of no_parseIPv6 "''not-a-cidr''" no_ipv6String example_master]
    GetFirstConsecutiveStaticIPAddress_default_on_parse_error
      [of no_parseIPv6 "''not-a-cidr''" no_ipv6String example_master_vmss]
  by (simp add: ParseCIDR_not_a_cidr)

section \<open>Properties of the vlabs converter\<close>

lemmas toVLabs_defs =
  ConvertContainerServiceToVLabs_def convertCustomCloudProfileToVLabs_def
  convertAzureEnvironmentSpecConfigToVLabs_def convertDockerSpecConfigToVLabs_def
  convertKubernetesSpecConfigToVLabs_def convertDCOSSpecConfigToVLabs_def
  convertAzureEndpointConfigToVLabs_def convertAzureOSImageConfigToVLabs_def

text \<open>
  Claim C8. For a container service whose custom cloud profile carries an
  \<^verbatim>\<open>AzureEnvironmentSpecConfig\<close>, the conversion to vlabs succeeds and every field of the
  Kubernetes, Docker and DCOS sub-configs, of the endpoint config, the cloud name, the
  identity system and the authentication method is equal to the original; the converted
  OS image map has exactly the keys of the source map, each with the four image fields
  of its source entry.
\<close>

theorem ConvertContainerServiceToVLabs_keeps_environment_spec:
  assumes "CS_Properties cs = Some p"
    and "CustomCloudProfile p = Some c"
    and "AzureEnvironmentSpecConfig c = Some a"
  shows "\<exists>v vp vc va.
      ConvertContainerServiceToVLabs cs = Inr v
    \<and> vlabs_CS_Properties v = Some vp
    \<and> vlabs_CustomCloudProfile vp = Some vc
    \<and> vlabs_AzureEnvironmentSpecConfig vc = Some va
    \<and> vlabs_IdentitySystem vc = IdentitySystem c
    \<and> vlabs_AuthenticationMethod vc = AuthenticationMethod c
    \<and> vlabs_CloudName va = CloudName a
    \<and> vlabs_KubernetesImageBase (vlabs_KubernetesSpecConfig va)
          = KubernetesImageBase (KubernetesSpecConfig a)
    \<and> vlabs_TillerImageBase (vlabs_KubernetesSpecConfig va)
          = TillerImageBase (KubernetesSpecConfig a)
    \<and> vlabs_ACIConnectorImageBase (vlabs_KubernetesSpecConfig va)
          = ACIConnectorImageBase (KubernetesSpecConfig a)
    \<and> vlabs_NVIDIAImageBase (vlabs_KubernetesSpecConfig va)
          = NVIDIAImageBase (KubernetesSpecConfig a)
    \<and> vlabs_AzureCNIImageBase (vlabs_KubernetesSpecConfig va)
          = AzureCNIImageBase (KubernetesSpecConfig a)
    \<and> vlabs_CalicoImageBase (vlabs_KubernetesSpecConfig va)
          = CalicoImageBase (KubernetesSpecConfig a)
    \<and> vlabs_EtcdDownloadURLBase (vlabs_KubernetesSpecConfig va)
          = EtcdDownloadURLBase (KubernetesSpecConfig a)
    \<and> vlabs_KubeBinariesSASURLBase (vlabs_KubernetesSpecConfig va)
          = KubeBinariesSASURLBase (KubernetesSpecConfig a)
    \<and> vlabs_WindowsTelemetryGUID (vlabs_KubernetesSpecConfig va)
          = WindowsTelemetryGUID (KubernetesSpecConfig a)
    \<and> vlabs_CNIPluginsDownloadURL (vlabs_KubernetesSpecConfig va)
          = CNIPluginsDownloadURL (KubernetesSpecConfig a)
    \<and> vlabs_VnetCNILinuxPluginsDownloadURL (vlabs_KubernetesSpecConfig va)
          = VnetCNILinuxPluginsDownloadURL (KubernetesSpecConfig a)
    \<and> vlabs_VnetCNIWindowsPluginsDownloadURL (vlabs_KubernetesSpecConfig va)
          = VnetCNIWindowsPluginsDownloadURL (KubernetesSpecConfig a)
    \<and> vlabs_ContainerdDownloadURLBase (vlabs_KubernetesSpecConfig va)
          = ContainerdDownloadURLBase (KubernetesSpecConfig a)
    \<and> vlabs_DockerEngineRepo (vlabs_DockerSpecConfig va)
          = DockerEngineRepo (DockerSpecConfig a)
    \<and> vlabs_DockerComposeDownloadURL (vlabs_DockerSpecConfig va)
          = DockerComposeDownloadURL (DockerSpecConfig a)
    \<and> vlabs_DCOS188BootstrapDownloadURL (vlabs_DCOSSpecConfig va)
          = DCOS188BootstrapDownloadURL (DCOSSpecConfig a)
    \<and> vlabs_DCOS190BootstrapDownloadURL (vlabs_DCOSSpecConfig va)
          = DCOS190BootstrapDownloadURL (DCOSSpecConfig a)
    \<and> vlabs_DCOS198BootstrapDownloadURL (vlabs_DCOSSpecConfig va)
          = DCOS198BootstrapDownloadURL (DCOSSpecConfig a)
    \<and> vlabs_DCOS110BootstrapDownloadURL (vlabs_DCOSSpecConfig va)
          = DCOS110BootstrapDownloadURL (DCOSSpecConfig a)
    \<and> vlabs_DCOS111BootstrapDownloadURL (vlabs_DCOSSpecConfig va)
          = DCOS111BootstrapDownloadURL (DCOSSpecConfig a)
    \<and> vlabs_DCOSWindowsBootstrapDownloadURL (vlabs_DCOSSpecConfig va)
          = DCOSWindowsBootstrapDownloadURL (DCOSSpecConfig a)
    \<and> vlabs_DcosRepositoryURL (vlabs_DCOSSpecConfig va)
          = DcosRepositoryURL (DCOSSpecConfig a)
    \<and> vlabs_DcosClusterPackageListID (vlabs_DCOSSpecConfig va)
          = DcosClusterPackageListID (DCOSSpecConfig a)
    \<and> vlabs_DcosProviderPackageID (vlabs_DCOSSpecConfig va)
          = DcosProviderPackageID (DCOSSpecConfig a)
    \<and> vlabs_ResourceManagerVMDNSSuffix (vlabs_EndpointConfig va)
          = ResourceManagerVMDNSSuffix (EndpointConfig a)
    \<and> dom (vlabs_OSImageConfig va) = dom (OSImageConfig a)
    \<and> (\<forall>k img. OSImageConfig a k = Some img \<longrightarrow>
          (\<exists>vimg. vlabs_OSImageConfig va k = Some vimg
             \<and> vlabs_ImageOffer vimg = ImageOffer img
             \<and> vlabs_ImageSku vimg = ImageSku img
             \<and> vlabs_ImagePublisher vimg = ImagePublisher img
             \<and> vlabs_ImageVersion vimg = ImageVersion img))"
  using assms by (simp add: toVLabs_defs dom_def)

theorem ConvertContainerServiceToVLabs_keeps_environment_spec_witness:
  "\<exists>v vp vc va.
      ConvertContainerServiceToVLabs example_cloud_service = Inr v
    \<and> vlabs_CS_Properties v = Some vp
    \<and> vlabs_CustomCloudProfile vp = Some vc
    \<and> vlabs_AzureEnvironmentSpecConfig vc = Some va
    \<and> vlabs_IdentitySystem vc = ''adfs''
    \<and> vlabs_AuthenticationMethod vc = ''client_certificate''
    \<and> vlabs_CloudName va = ''AzureStackCloud''
    \<and> vlabs_CalicoImageBase (vlabs_KubernetesSpecConfig va) = ''CalicoImageBase''
    \<and> vlabs_DcosProviderPackageID (vlabs_DCOSSpecConfig va) = ''DcosProviderPackageID''
    \<and> dom (vlabs_OSImageConfig va) = {''Test''}
    \<and> (\<exists>vimg. vlabs_OSImageConfig va ''Test'' = Some vimg
          \<and> vlabs_ImageSku vimg = ''ImageSku'')"
proof -
  let ?c = "\<lparr>AzureEnvironmentSpecConfig = Some example_spec_config,
            IdentitySystem = ADFSIdentitySystem,
            AuthenticationMethod = ClientCertificateAuthMethod\<rparr>"
  let ?p = "\<lparr>ClusterID = [], OrchestratorProfile = None, MasterProfile = None,
         AgentPoolProfiles = None, HostedMasterProfile = None,
         CustomCloudProfile = Some ?c\<rparr>"
  have 1: "CS_Properties example_cloud_service = Some ?p"
    by (simp add: example_cloud_service_def)
  have 2: "CustomCloudProfile ?p = Some ?c" by simp
  have 3: "AzureEnvironmentSpecConfig ?c = Some example_spec_config" by simp
  from ConvertContainerServiceToVLabs_keeps_environment_spec [OF 1 2 3]
  obtain v vp vc va where
    r: "ConvertContainerServiceToVLabs example_cloud_service = Inr v"
      "vlabs_CS_Properties v = Some vp"
      "vlabs_CustomCloudProfile vp = Some vc"
      "vlabs_AzureEnvironmentSpecConfig vc = Some va"
    and i: "vlabs_IdentitySystem vc = IdentitySystem ?c"
      "vlabs_AuthenticationMethod vc = AuthenticationMethod ?c"
    and n: "vlabs_CloudName va = CloudName example_spec_config"
    and k: "vlabs_CalicoImageBase (vlabs_KubernetesSpecConfig va)
          = CalicoImageBase (KubernetesSpecConfig example_spec_config)"
    and d: "vlabs_DcosProviderPackageID (vlabs_DCOSSpecConfig va)
          = DcosProviderPackageID (DCOSSpecConfig example_spec_config)"
    and m: "dom (vlabs_OSImageConfig va) = dom (OSImageConfig example_spec_config)"
    and e: "\<forall>k img. OSImageConfig example_spec_config k = Some img \<longrightarrow>
          (\<exists>vimg. vlabs_OSImageConfig va k = Some vimg
             \<and> vlabs_ImageOffer vimg = ImageOffer img
             \<and> vlabs_ImageSku vimg = ImageSku img
             \<and> vlabs_ImagePublisher vimg = ImagePublisher img
             \<and> vlabs_ImageVersion vimg = ImageVersion img)"
    by blast
  have t: "OSImageConfig example_spec_config ''Test'' =
      Some \<lparr>ImageOffer = ''ImageOffer'', ImageSku = ''ImageSku'',
            ImagePublisher = ''ImagePublisher'', ImageVersion = ''ImageVersion''\<rparr>"
    by (simp add: example_spec_config_def)
  from e t obtain vimg where "vlabs_OSImageConfig va ''Test'' = Some vimg"
    "vlabs_ImageSku vimg = ''ImageSku''"
    by fastforce
  moreover have "dom (OSImageConfig example_spec_config) = {''Test''}"
    by (simp add: example_spec_config_def)
  ultimately show ?thesis
    using r i n k d m
    by (simp add: example_spec_config_def ADFSIdentitySystem_def ClientCertificateAuthMethod_def)
qed

section \<open>Properties of concurrent calls of GetClusterID\<close>

lemma hash_of_prefix_identifying_string:
  "hash_of_prefix p = fnv64a_Write fnv_offset64 (bytes_of (identifying_string p))"
  by (simp add: hash_of_prefix_def identifying_string_def Sum64_def New64a_def bytes_of_def
      split: option.splits list.splits)

lemma hash_of_prefix_ClusterID:
  "hash_of_prefix (p\<lparr>ClusterID := c\<rparr>) = hash_of_prefix p"
  by (simp add: hash_of_prefix_def pools_def split: option.splits)

text \<open>A single call run to its end is \<^verbatim>\<open>GetClusterID\<close> as embedded above.\<close>

lemma one_call_is_GetClusterID:
  "race_run rnd [0, 0, 0, 0, 0, 0] (race_init p 1) =
     \<lparr>shared = snd (GetClusterID rnd p),
      calls = [Returned (fst (GetClusterID rnd p))],
      mutexes = [False],
      computed = (if ClusterID p = [] then 1 else 0),
      blocked = 0\<rparr>"
proof (cases "ClusterID p = []")
  case True
  then show ?thesis
    by (simp add: race_run_def race_init_def race_step_def GetClusterID_fresh cluster_id_of_def
        hash_of_prefix_identifying_string)
next
  case False
  then show ?thesis
    by (simp add: race_run_def race_init_def race_step_def GetClusterID_stored)
qed

text \<open>
  Claim C5 at two calls that race on a \<^verbatim>\<open>Properties\<close> with an empty \<^verbatim>\<open>ClusterID\<close>,
  stepping in turn: both pass the test before either assigns, so the id is computed and
  assigned twice, not at most once, and neither call waits for the other. Both return the
  same string, since the computation is a function of the unchanged prefix.
\<close>

theorem racing_calls_both_compute:
  assumes "ClusterID p = []"
  shows "race_run rnd [0, 1, 0, 1, 0, 1, 0, 1, 0, 1, 0, 1] (race_init p 2) =
     \<lparr>shared = p\<lparr>ClusterID := cluster_id_of rnd (identifying_string p)\<rparr>,
      calls = [Returned (cluster_id_of rnd (identifying_string p)),
               Returned (cluster_id_of rnd (identifying_string p))],
      mutexes = [False, False],
      computed = 2,
      blocked = 0\<rparr>"
  using assms
  by (simp add: race_run_def race_init_def race_step_def cluster_id_of_def hash_of_prefix_identifying_string
      numeral_2_eq_2)

text \<open>
  In every schedule of any number of calls no call ever finds its mutex locked: the lock
  is not shared, so it makes no caller wait.
\<close>

lemma own_mutex_free_init: "own_mutex_free (race_init p n)"
  by (simp add: own_mutex_free_def race_init_def)

lemma own_mutex_free_step:
  assumes "own_mutex_free st"
  shows "own_mutex_free (race_step rnd st i) \<and> blocked (race_step rnd st i) = blocked st"
proof (cases "i < length (calls st)")
  case False
  then show ?thesis using assms by (simp add: race_step_def)
next
  case True
  show ?thesis
  proof (cases "calls st ! i")
    case (AtLock seed)
    then have "\<not> mutexes st ! i"
      using assms True by (auto simp: own_mutex_free_def)
    then show ?thesis
      using assms True AtLock
      by (auto simp: race_step_def own_mutex_free_def nth_list_update)
  qed (use assms True in \<open>auto simp: race_step_def own_mutex_free_def nth_list_update\<close>)
qed

lemma never_blocked_foldl:
  "own_mutex_free st \<Longrightarrow>
   own_mutex_free (foldl (race_step rnd) st schedule)
   \<and> blocked (foldl (race_step rnd) st schedule) = blocked st"
proof (induction schedule arbitrary: st)
  case Nil
  then show ?case by simp
next
  case (Cons i schedule)
  from own_mutex_free_step [OF Cons.prems, of rnd i]
  have a: "own_mutex_free (race_step rnd st i)" and b: "blocked (race_step rnd st i) = blocked st"
    by simp_all
  from Cons.IH [OF a] b show ?case by simp
qed

lemma no_call_ever_blocks: "blocked (race_run rnd schedule (race_init p n)) = 0"
  using never_blocked_foldl [OF own_mutex_free_init, of rnd p n schedule]
  by (simp add: race_run_def race_init_def)

theorem racing_calls_both_compute_witness:
  "ClusterID example_swarm = []
   \<and> computed (race_run low_bits [0, 1, 0, 1, 0, 1, 0, 1, 0, 1, 0, 1]
        (race_init example_swarm 2)) = 2
   \<and> blocked (race_run low_bits [0, 1, 0, 1, 0, 1, 0, 1, 0, 1, 0, 1]
        (race_init example_swarm 2)) = 0
   \<and> calls (race_run low_bits [0, 1, 0, 1, 0, 1, 0, 1, 0, 1, 0, 1]
        (race_init example_swarm 2)) = [Returned ''22482730'', Returned ''22482730'']"
proof -
  have e: "ClusterID example_swarm = []" by (simp add: example_swarm_def)
  have i: "identifying_string example_swarm = ''a''"
    by (simp add: identifying_string_def example_swarm_def)
  show ?thesis
    using racing_calls_both_compute [OF e, of low_bits]
    by (simp add: e i cluster_id_of_a)
qed

end
